theory Spec2Isabelle
  imports Main
begin

section \<open>Python values and strings\<close>

text \<open>
  Strings are lists of code points below 256. \<open>str.strip()\<close> without arguments removes
  the characters for which \<open>str.isspace()\<close> holds from both ends; below 256 these are
  the code points 9 to 13, 28 to 32, 133 and 160.
\<close>

definition is_space :: "char \<Rightarrow> bool" where
  "is_space c = ((of_char c :: nat) \<in> {9, 10, 11, 12, 13, 28, 29, 30, 31, 32, 133, 160})"

definition strip :: "string \<Rightarrow> string" where
  "strip s = rev (dropWhile is_space (rev (dropWhile is_space s)))"

text \<open>\<open>param is not None and len(param.strip()) == 0\<close>\<close>

fun is_blank :: "string option \<Rightarrow> bool" where
  "is_blank None = False"
| "is_blank (Some s) = (strip s = [])"

text \<open>
  Truthiness of an optional string (\<open>if x:\<close>): \<open>None\<close> and the empty string are false.
  \<open>truthy_str\<close> returns the string when it is true.
\<close>

fun truthy_str :: "string option \<Rightarrow> string option" where
  "truthy_str None = None"
| "truthy_str (Some s) = (if s = [] then None else Some s)"

text \<open>\<open>a or b\<close> on optional strings.\<close>

definition py_or :: "string option \<Rightarrow> string option \<Rightarrow> string option" where
  "py_or a b = (case truthy_str a of Some s \<Rightarrow> Some s | None \<Rightarrow> b)"

text \<open>The values a numeric attribute of a remote record holds: JSON null, a number, a string.\<close>

datatype pyval = PNone | PInt int | PStr string

definition digit_chr :: "nat \<Rightarrow> char" where
  "digit_chr n = ''0123456789'' ! n"

function dec_digits :: "nat \<Rightarrow> string" where
  "dec_digits n = (if n < 10 then [digit_chr n] else dec_digits (n div 10) @ [digit_chr (n mod 10)])"
  by pat_completeness auto
termination
  by (relation "measure (\<lambda>n. n)") auto

declare dec_digits.simps [simp del]

text \<open>\<open>str(v)\<close>, and \<open>"%s" % v\<close> for an optional string.\<close>

fun py_str :: "pyval \<Rightarrow> string" where
  "py_str PNone = ''None''"
| "py_str (PInt i) = (if i < 0 then ''-'' @ dec_digits (nat (- i)) else dec_digits (nat i))"
| "py_str (PStr s) = s"

fun fmt :: "string option \<Rightarrow> string" where
  "fmt None = ''None''"
| "fmt (Some s) = s"

section \<open>The remote management API\<close>

text \<open>
  A record returned by \<open>powerflex_conn.sdc.get\<close>: a dictionary of the SDC schema. The
  keys the modules read are kept; \<open>mapped_volumes\<close> is the key \<open>get_sdc\<close> adds.
\<close>

datatype volume = Volume (vol_id: string) (vol_name: string)

record details =
  d_id :: string
  d_name :: "string option"
  d_sdcIp :: "string option"
  d_nqn :: "string option"
  d_maxNumPaths :: pyval
  d_maxNumSysPorts :: pyval
  d_mapped_volumes :: "volume list option"

text \<open>The argument \<open>filter_fields\<close> of \<open>sdc.get\<close>: one key with its value.\<close>

datatype filter_fields =
    ByName string
  | BySdcIp string
  | ById "string option"
  | ByNqn string

text \<open>The calls a module issues on the connection, in the order it issues them.\<close>

datatype call =
    SdcGet filter_fields
  | SdcGetMappedVolumes string
  | SdcRename string string
  | SdcDelete string
  | HostCreate string "string option" "string option" "string option"
  | HostModifyMaxNumPaths string string
  | HostModifyMaxNumSysPorts string string

fun is_read :: "call \<Rightarrow> bool" where
  "is_read (SdcGet _) = True"
| "is_read (SdcGetMappedVolumes _) = True"
| "is_read _ = False"

text \<open>
  The connection object of the vendor SDK is not part of the repository: the modules are
  parametrised over it. \<open>'r\<close> is the state of the remote system; a call returns
  \<open>Inl msg\<close> when the SDK raises an exception whose \<open>str\<close> is \<open>msg\<close>. Reads leave
  the remote state as it is, a mutating call returns the new one. \<open>host.create\<close>
  returns the \<open>id\<close> entry of its response, \<open>None\<close> for a response that is false.
\<close>

record 'r powerflex_conn =
  conn_sdc_get :: "'r \<Rightarrow> filter_fields \<Rightarrow> string + details list"
  conn_sdc_get_mapped_volumes :: "'r \<Rightarrow> string \<Rightarrow> string + volume list"
  conn_sdc_rename :: "'r \<Rightarrow> string \<Rightarrow> string \<Rightarrow> string + 'r"
  conn_sdc_delete :: "'r \<Rightarrow> string \<Rightarrow> string + 'r"
  conn_host_create ::
    "'r \<Rightarrow> string \<Rightarrow> string option \<Rightarrow> string option \<Rightarrow> string option \<Rightarrow> string + (string option \<times> 'r)"
  conn_host_modify_max_num_paths :: "'r \<Rightarrow> string \<Rightarrow> string \<Rightarrow> string + 'r"
  conn_host_modify_max_num_sys_ports :: "'r \<Rightarrow> string \<Rightarrow> string \<Rightarrow> string + 'r"

record 'r world =
  remote :: 'r
  calls :: "call list"

definition record_call :: "call \<Rightarrow> 'r world \<Rightarrow> 'r world" where
  "record_call c w = w\<lparr>calls := calls w @ [c]\<rparr>"

section \<open>Failures and sequencing\<close>

text \<open>
  \<open>module.fail_json(msg=...)\<close> ends the invocation (it raises \<open>SystemExit\<close>, which
  \<open>except Exception\<close> does not catch). \<open>Uncaught\<close> is an exception no handler catches.
\<close>

datatype failure = FailJson string | Uncaught string

datatype lifecycle = Present | Absent

text \<open>What \<open>module.exit_json\<close> receives: \<open>changed\<close> and \<open>sdc_details\<close> or \<open>nvme_host_details\<close>.\<close>

record module_result =
  changed :: bool
  resource_details :: "details option"

type_synonym ('r, 'a) op = "'r world \<Rightarrow> (failure + 'a) \<times> 'r world"

definition m_return :: "'a \<Rightarrow> ('r, 'a) op" where
  "m_return x w = (Inr x, w)"

definition fail_json :: "string \<Rightarrow> ('r, 'a) op" where
  "fail_json msg w = (Inl (FailJson msg), w)"

definition m_bind :: "('r, 'a) op \<Rightarrow> ('a \<Rightarrow> ('r, 'b) op) \<Rightarrow> ('r, 'b) op" where
  "m_bind m f w = (case m w of (Inl e, w') \<Rightarrow> (Inl e, w') | (Inr x, w') \<Rightarrow> f x w')"

definition m_when :: "bool \<Rightarrow> ('r, unit) op \<Rightarrow> ('r, unit) op" where
  "m_when c m = (if c then m else m_return ())"

definition m_lift :: "failure + 'a \<Rightarrow> ('r, 'a) op" where
  "m_lift x w = (x, w)"

section \<open>Module \<open>dellemc_powerflex_sdc\<close>\<close>

text \<open>
  The parameters are what \<open>self.module.params\<close> holds: optional strings and the
  state. Nothing is assumed of them beyond their types; in particular the
  \<open>mutually_exclusive\<close> and \<open>required_one_of\<close> checks of \<open>AnsibleModule\<close> are
  not part of the modules' own code.
\<close>

record sdc_params =
  sdc_name :: "string option"
  sdc_id :: "string option"
  sdc_ip :: "string option"
  sdc_new_name :: "string option"
  sdc_state :: lifecycle

definition rename_sdc :: "'r powerflex_conn \<Rightarrow> string \<Rightarrow> string \<Rightarrow> ('r, bool) op" where
  "rename_sdc conn sid new_name w =
     (let w1 = record_call (SdcRename sid new_name) w in
      case conn_sdc_rename conn (remote w) sid new_name of
        Inl e \<Rightarrow> fail_json (''Failed to rename SDC '' @ sid @ '' with error '' @ e) w1
      | Inr r' \<Rightarrow> (Inr True, w1\<lparr>remote := r'\<rparr>))"

definition get_mapped_volumes :: "'r powerflex_conn \<Rightarrow> string \<Rightarrow> ('r, volume list) op" where
  "get_mapped_volumes conn sid w =
     (let w1 = record_call (SdcGetMappedVolumes sid) w in
      case conn_sdc_get_mapped_volumes conn (remote w) sid of
        Inl e \<Rightarrow> fail_json (''Failed to get the volumes mapped to SDC '' @ sid @ '' with error '' @ e) w1
      | Inr resp \<Rightarrow> (Inr resp, w1))"

text \<open>The filter \<open>get_sdc\<close> queries with: name, else ip, else id.\<close>

definition sdc_filter :: "string option \<Rightarrow> string option \<Rightarrow> string option \<Rightarrow> filter_fields" where
  "sdc_filter name ip sid =
     (case truthy_str name of Some n \<Rightarrow> ByName n
      | None \<Rightarrow> (case truthy_str ip of Some i \<Rightarrow> BySdcIp i | None \<Rightarrow> ById sid))"

text \<open>\<open>id_ip_name = sdc_ip if sdc_ip else sdc_name if sdc_name else sdc_id\<close>\<close>

definition id_ip_name :: "string option \<Rightarrow> string option \<Rightarrow> string option \<Rightarrow> string option" where
  "id_ip_name name ip sid =
     (case truthy_str ip of Some i \<Rightarrow> Some i
      | None \<Rightarrow> (case truthy_str name of Some n \<Rightarrow> Some n | None \<Rightarrow> sid))"

definition get_sdc ::
  "'r powerflex_conn \<Rightarrow> string option \<Rightarrow> string option \<Rightarrow> string option \<Rightarrow> ('r, details option) op" where
  "get_sdc conn name ip sid w =
     (let w1 = record_call (SdcGet (sdc_filter name ip sid)) w in
      case conn_sdc_get conn (remote w) (sdc_filter name ip sid) of
        Inl e \<Rightarrow>
          fail_json (''Failed to get the SDC '' @ fmt (id_ip_name name ip sid) @ '' with error '' @ e) w1
      | Inr [] \<Rightarrow> (Inr None, w1)
      | Inr (d # ds) \<Rightarrow>
          m_bind (get_mapped_volumes conn (d_id d))
            (\<lambda>vols. m_return (Some (d\<lparr>d_mapped_volumes := Some vols\<rparr>))) w1)"

fun check_identifiers :: "(string \<times> string option) list \<Rightarrow> failure + unit" where
  "check_identifiers [] = Inr ()"
| "check_identifiers ((param, v) # rest) =
     (if is_blank v then Inl (FailJson (''Please provide valid '' @ param))
      else check_identifiers rest)"

definition sdc_validate_parameters :: "sdc_params \<Rightarrow> failure + unit" where
  "sdc_validate_parameters p =
     (if sdc_name p = None \<and> sdc_id p = None \<and> sdc_ip p = None
      then Inl (FailJson ''Please provide sdc_name/sdc_id/sdc_ip with valid input.'')
      else check_identifiers
             [(''sdc_name'', sdc_name p), (''sdc_id'', sdc_id p), (''sdc_ip'', sdc_ip p)])"

text \<open>
  The rename block of \<open>perform_module_operation\<close>: it returns \<open>changed\<close> and the value
  of the local variable \<open>sdc_name\<close> after it.
\<close>

definition sdc_rename_block ::
  "'r powerflex_conn \<Rightarrow> sdc_params \<Rightarrow> details option \<Rightarrow> ('r, bool \<times> string option) op" where
  "sdc_rename_block conn p found =
     (case (found, sdc_new_name p) of
        (Some d, Some new_name) \<Rightarrow>
          if sdc_state p = Present then
            m_bind (m_when (strip new_name = []) (fail_json ''Please provide valid SDC name.''))
              (\<lambda>_. m_bind (rename_sdc conn (d_id d) new_name)
                (\<lambda>chg. m_return (chg, if chg then Some new_name else sdc_name p)))
          else m_return (False, sdc_name p)
      | _ \<Rightarrow> m_return (False, sdc_name p))"

definition sdc_perform_module_operation ::
  "'r powerflex_conn \<Rightarrow> sdc_params \<Rightarrow> ('r, module_result) op" where
  "sdc_perform_module_operation conn p =
     m_bind (m_lift (sdc_validate_parameters p)) (\<lambda>_.
     m_bind (get_sdc conn (sdc_name p) (sdc_ip p) (sdc_id p)) (\<lambda>found.
     m_bind (m_when (sdc_state p = Present \<and> found = None)
               (fail_json (''Could not find any SDC instance with identifier ''
                  @ fmt (id_ip_name (sdc_name p) (sdc_ip p) (sdc_id p)) @ ''.''))) (\<lambda>_.
     m_bind (m_when (sdc_state p = Absent \<and> found \<noteq> None)
               (fail_json ''Removal of SDC is not allowed through Ansible module.'')) (\<lambda>_.
     m_bind (sdc_rename_block conn p found) (\<lambda>(chg, name').
     m_bind (if sdc_state p = Present then get_sdc conn name' (sdc_ip p) (sdc_id p)
             else m_return None) (\<lambda>snapshot.
     m_return \<lparr>changed = chg, resource_details = snapshot\<rparr>))))))"

section \<open>Module \<open>nvme_host\<close>\<close>

text \<open>
  The methods of class \<open>PowerFlexNvmeHost\<close>. (The \<open>main\<close> function of the file
  constructs \<open>PowerFlexHost\<close>, a name the file does not define; the unit test
  constructs \<open>PowerFlexNvmeHost\<close> and calls \<open>perform_module_operation\<close> on it, as
  modelled here.)
\<close>

record nvme_params =
  nvme_host_id :: "string option"
  nvme_host_name :: "string option"
  nvme_host_new_name :: "string option"
  max_num_paths :: "string option"
  max_num_sys_ports :: "string option"
  nqn :: "string option"
  nvme_state :: lifecycle

text \<open>
  The selector \<open>get_nvme_host\<close> queries with, together with \<open>id_name\<close>: name, else id,
  else nqn. With none of them true both local variables stay unbound.
\<close>

definition nvme_filter ::
  "string option \<Rightarrow> string option \<Rightarrow> string option \<Rightarrow> (string \<times> filter_fields) option" where
  "nvme_filter hid name q =
     (case truthy_str name of Some n \<Rightarrow> Some (n, ByName n)
      | None \<Rightarrow> (case truthy_str hid of Some i \<Rightarrow> Some (i, ById (Some i))
        | None \<Rightarrow> (case truthy_str q of Some x \<Rightarrow> Some (x, ByNqn x) | None \<Rightarrow> None)))"

definition get_nvme_host ::
  "'r powerflex_conn \<Rightarrow> string option \<Rightarrow> string option \<Rightarrow> string option \<Rightarrow> ('r, details option) op" where
  "get_nvme_host conn hid name q w =
     (case nvme_filter hid name q of
        None \<Rightarrow> (Inl (Uncaught ''UnboundLocalError''), w)
      | Some (id_name, flt) \<Rightarrow>
          (let w1 = record_call (SdcGet flt) w in
           case conn_sdc_get conn (remote w) flt of
             Inl e \<Rightarrow>
               fail_json (''Failed to get the NVMe host '' @ id_name @ '' with error '' @ e) w1
           | Inr [] \<Rightarrow>
               if truthy_str hid \<noteq> None
               then fail_json (''Unable to find NVMe host with identifier '' @ id_name) w1
               else (Inr None, w1)
           | Inr (d # ds) \<Rightarrow> (Inr (Some d), w1)))"

definition create_nvme_host ::
  "'r powerflex_conn \<Rightarrow> string option \<Rightarrow> string option \<Rightarrow> string option \<Rightarrow> string option
     \<Rightarrow> ('r, string option) op" where
  "create_nvme_host conn q name mp msp w =
     (case q of
        None \<Rightarrow> fail_json ''Please provide valid NQN.'' w
      | Some x \<Rightarrow>
          if strip x = [] then fail_json ''Please provide valid NQN.'' w
          else
            (let w1 = record_call (HostCreate x name mp msp) w in
             case conn_host_create conn (remote w) x name mp msp of
               Inl e \<Rightarrow> fail_json (''Create NVMe host operation failed with error '' @ e) w1
             | Inr (host_id, r') \<Rightarrow> (Inr host_id, w1\<lparr>remote := r'\<rparr>)))"

definition create_host ::
  "'r powerflex_conn \<Rightarrow> nvme_params \<Rightarrow> ('r, details option \<times> bool) op" where
  "create_host conn p =
     m_bind (m_when (truthy_str (nqn p) = None)
               (fail_json ''nqn parameter is required for creating an NVMe host.'')) (\<lambda>_.
     m_bind (m_when (truthy_str (nvme_host_new_name p) \<noteq> None)
               (fail_json (''nvme_host_new_name parameter is not supported during ''
                  @ ''creation of a volume. Try renaming the NVMe host after''
                  @ '' the creation.''))) (\<lambda>_.
     m_bind (create_nvme_host conn (nqn p) (nvme_host_name p) (max_num_paths p) (max_num_sys_ports p))
       (\<lambda>created.
          case created of
            Some cid \<Rightarrow> m_bind (get_nvme_host conn (Some cid) None None) (\<lambda>d. m_return (d, True))
          | None \<Rightarrow> m_return (None, False))))"

definition nvme_validate_parameters :: "nvme_params \<Rightarrow> failure + unit" where
  "nvme_validate_parameters p =
     (case check_identifiers
             [(''nvme_host_id'', nvme_host_id p), (''nvme_host_name'', nvme_host_name p)] of
        Inl e \<Rightarrow> Inl e
      | Inr _ \<Rightarrow>
          if nvme_host_id p = None \<and> nvme_host_name p = None \<and> nqn p = None
          then Inl (FailJson ''Please provide at least one of nvme_host_id, nvme_host_name or nqn'')
          else Inr ())"

definition remove :: "'r powerflex_conn \<Rightarrow> string \<Rightarrow> ('r, bool) op" where
  "remove conn nvme_id w =
     (let w1 = record_call (SdcDelete nvme_id) w in
      case conn_sdc_delete conn (remote w) nvme_id of
        Inl e \<Rightarrow> fail_json (''Removing NVMe host '' @ nvme_id @ '' failed with error '' @ e) w1
      | Inr r' \<Rightarrow> (Inr True, w1\<lparr>remote := r'\<rparr>))"

text \<open>The three blocks of \<open>perform_modify\<close>; each takes and returns \<open>modified\<close>.\<close>

definition modify_name :: "'r powerflex_conn \<Rightarrow> details \<Rightarrow> string option \<Rightarrow> bool \<Rightarrow> ('r, bool) op" where
  "modify_name conn d new_name modified w =
     (case new_name of
        None \<Rightarrow> (Inr modified, w)
      | Some nn \<Rightarrow>
          if Some nn \<noteq> d_name d then
            (let w1 = record_call (SdcRename (d_id d) nn) w in
             case conn_sdc_rename conn (remote w) (d_id d) nn of
               Inl e \<Rightarrow>
                 fail_json (''Failed to rename NVMe host '' @ d_id d @ '' with error '' @ e) w1
             | Inr r' \<Rightarrow> (Inr True, w1\<lparr>remote := r'\<rparr>))
          else (Inr modified, w))"

definition modify_paths :: "'r powerflex_conn \<Rightarrow> details \<Rightarrow> string option \<Rightarrow> bool \<Rightarrow> ('r, bool) op" where
  "modify_paths conn d mp modified w =
     (case truthy_str mp of
        None \<Rightarrow> (Inr modified, w)
      | Some v \<Rightarrow>
          if v \<noteq> py_str (d_maxNumPaths d) then
            (let w1 = record_call (HostModifyMaxNumPaths (d_id d) v) w in
             case conn_host_modify_max_num_paths conn (remote w) (d_id d) v of
               Inl e \<Rightarrow>
                 fail_json (''Failed to modify NVMe host '' @ d_id d
                    @ '' max_num_paths with error '' @ e) w1
             | Inr r' \<Rightarrow> (Inr True, w1\<lparr>remote := r'\<rparr>))
          else (Inr modified, w))"

definition modify_sys_ports ::
  "'r powerflex_conn \<Rightarrow> details \<Rightarrow> string option \<Rightarrow> bool \<Rightarrow> ('r, bool) op" where
  "modify_sys_ports conn d msp modified w =
     (case truthy_str msp of
        None \<Rightarrow> (Inr modified, w)
      | Some v \<Rightarrow>
          if v \<noteq> py_str (d_maxNumSysPorts d) then
            (let w1 = record_call (HostModifyMaxNumSysPorts (d_id d) v) w in
             case conn_host_modify_max_num_sys_ports conn (remote w) (d_id d) v of
               Inl e \<Rightarrow>
                 fail_json (''Failed to modify NVMe host '' @ d_id d
                    @ '' max_num_sys_ports with error '' @ e) w1
             | Inr r' \<Rightarrow> (Inr True, w1\<lparr>remote := r'\<rparr>))
          else (Inr modified, w))"

definition perform_modify ::
  "'r powerflex_conn \<Rightarrow> details \<Rightarrow> string option \<Rightarrow> string option \<Rightarrow> string option \<Rightarrow> ('r, bool) op" where
  "perform_modify conn d new_name mp msp =
     m_bind (modify_name conn d new_name False) (\<lambda>m1.
     m_bind (modify_paths conn d mp m1) (\<lambda>m2.
     modify_sys_ports conn d msp m2))"

text \<open>
  The three lifecycle blocks of \<open>perform_module_operation\<close>: they return the local
  variables \<open>nvme_host_details\<close> and \<open>changed\<close> after them.
\<close>

definition nvme_lifecycle_block ::
  "'r powerflex_conn \<Rightarrow> nvme_params \<Rightarrow> details option \<Rightarrow> ('r, details option \<times> bool) op" where
  "nvme_lifecycle_block conn p found =
     (case found of
        Some d \<Rightarrow>
          (case nvme_state p of
             Absent \<Rightarrow> m_bind (remove conn (d_id d)) (\<lambda>chg. m_return (Some d, chg))
           | Present \<Rightarrow>
               m_bind (perform_modify conn d (nvme_host_new_name p) (max_num_paths p)
                         (max_num_sys_ports p)) (\<lambda>chg. m_return (Some d, chg)))
      | None \<Rightarrow>
          (case nvme_state p of
             Absent \<Rightarrow> m_return (None, False)
           | Present \<Rightarrow> create_host conn p))"

definition nvme_perform_module_operation ::
  "'r powerflex_conn \<Rightarrow> nvme_params \<Rightarrow> ('r, module_result) op" where
  "nvme_perform_module_operation conn p =
     m_bind (m_lift (nvme_validate_parameters p)) (\<lambda>_.
     m_bind (get_nvme_host conn (nvme_host_id p) (nvme_host_name p) (nqn p)) (\<lambda>found.
     m_bind (nvme_lifecycle_block conn p found) (\<lambda>(d, chg).
     m_bind (if chg
             then get_nvme_host conn (nvme_host_id p)
                    (py_or (nvme_host_new_name p) (nvme_host_name p)) (nqn p)
             else m_return d) (\<lambda>snapshot.
     m_return \<lparr>changed = chg, resource_details = snapshot\<rparr>))))"

section \<open>A reference remote system\<close>

text \<open>
  Modelled from the spec: the remote collaborator (\<open>list\<close>, \<open>create\<close>, \<open>rename\<close>,
  \<open>modify_limit\<close>, \<open>delete\<close>, \<open>list_children\<close>), which the repository calls through
  the vendor SDK and does not contain. The remote state is the list of registered
  records; it is used to run the modules on concrete inputs.
\<close>

fun matches :: "filter_fields \<Rightarrow> details \<Rightarrow> bool" where
  "matches (ByName n) d = (d_name d = Some n)"
| "matches (BySdcIp i) d = (d_sdcIp d = Some i)"
| "matches (ById i) d = (i = Some (d_id d))"
| "matches (ByNqn q) d = (d_nqn d = Some q)"

definition known :: "details list \<Rightarrow> string \<Rightarrow> bool" where
  "known r i = (i \<in> set (map d_id r))"

definition update_where :: "string \<Rightarrow> (details \<Rightarrow> details) \<Rightarrow> details list \<Rightarrow> details list" where
  "update_where i f r = map (\<lambda>d. if d_id d = i then f d else d) r"

fun digit_val :: "char \<Rightarrow> int option" where
  "digit_val c =
     (let n = (of_char c :: nat) in if 48 \<le> n \<and> n \<le> 57 then Some (int n - 48) else None)"

fun parse_int :: "int \<Rightarrow> string \<Rightarrow> int option" where
  "parse_int acc [] = Some acc"
| "parse_int acc (c # cs) =
     (case digit_val c of None \<Rightarrow> None | Some v \<Rightarrow> parse_int (10 * acc + v) cs)"

definition set_limit ::
  "(pyval \<Rightarrow> details \<Rightarrow> details) \<Rightarrow> details list \<Rightarrow> string \<Rightarrow> string \<Rightarrow> string + details list" where
  "set_limit upd r i v =
     (if \<not> known r i then Inl ''not found''
      else if v = [] then Inl ''invalid value''
      else case parse_int 0 v of
             None \<Rightarrow> Inl ''invalid value''
           | Some n \<Rightarrow> Inr (update_where i (upd (PInt n)) r))"

definition limit_of :: "string option \<Rightarrow> pyval" where
  "limit_of v = (case v of None \<Rightarrow> PNone
                 | Some s \<Rightarrow> (case parse_int 0 s of None \<Rightarrow> PNone | Some n \<Rightarrow> PInt n))"

definition mem_conn :: "details list powerflex_conn" where
  "mem_conn = \<lparr>
     conn_sdc_get = (\<lambda>r flt. Inr (filter (matches flt) r)),
     conn_sdc_get_mapped_volumes = (\<lambda>r i.
       case find (\<lambda>d. d_id d = i) r of
         None \<Rightarrow> Inl ''not found''
       | Some d \<Rightarrow> Inr (case d_mapped_volumes d of None \<Rightarrow> [] | Some vs \<Rightarrow> vs)),
     conn_sdc_rename = (\<lambda>r i n.
       if known r i then Inr (update_where i (\<lambda>d. d\<lparr>d_name := Some n\<rparr>) r) else Inl ''not found''),
     conn_sdc_delete = (\<lambda>r i.
       if known r i then Inr (filter (\<lambda>d. d_id d \<noteq> i) r) else Inl ''not found''),
     conn_host_create = (\<lambda>r q name mp msp.
       if Some q \<in> set (map d_nqn r) then Inl ''nqn already in use''
       else let i = ''host'' @ dec_digits (length r) in
            Inr (Some i,
                 r @ [\<lparr>d_id = i, d_name = name, d_sdcIp = None, d_nqn = Some q,
                        d_maxNumPaths = limit_of mp, d_maxNumSysPorts = limit_of msp,
                        d_mapped_volumes = None\<rparr>])),
     conn_host_modify_max_num_paths = set_limit (\<lambda>v d. d\<lparr>d_maxNumPaths := v\<rparr>),
     conn_host_modify_max_num_sys_ports = set_limit (\<lambda>v d. d\<lparr>d_maxNumSysPorts := v\<rparr>)
   \<rparr>"

definition host :: "string \<Rightarrow> string option \<Rightarrow> string option \<Rightarrow> int \<Rightarrow> int \<Rightarrow> details" where
  "host i n q mp msp =
     \<lparr>d_id = i, d_name = n, d_sdcIp = None, d_nqn = q, d_maxNumPaths = PInt mp,
      d_maxNumSysPorts = PInt msp, d_mapped_volumes = None\<rparr>"

definition sdc :: "string \<Rightarrow> string option \<Rightarrow> string option \<Rightarrow> details" where
  "sdc i n ip =
     \<lparr>d_id = i, d_name = n, d_sdcIp = ip, d_nqn = None, d_maxNumPaths = PNone,
      d_maxNumSysPorts = PNone, d_mapped_volumes = None\<rparr>"

definition start :: "'r \<Rightarrow> 'r world" where
  "start r = \<lparr>remote = r, calls = []\<rparr>"

text \<open>The filters of the \<open>sdc.get\<close> calls in a call log, in order.\<close>

fun queries :: "call list \<Rightarrow> filter_fields list" where
  "queries [] = []"
| "queries (SdcGet f # cs) = f # queries cs"
| "queries (c # cs) = queries cs"

section \<open>Unfolding rules\<close>

lemmas op_defs = Let_def m_bind_def m_return_def m_when_def m_lift_def fail_json_def record_call_def

lemmas sdc_defs = sdc_perform_module_operation_def sdc_validate_parameters_def get_sdc_def
  get_mapped_volumes_def rename_sdc_def sdc_rename_block_def sdc_filter_def id_ip_name_def

lemmas nvme_defs = nvme_perform_module_operation_def nvme_validate_parameters_def
  get_nvme_host_def nvme_filter_def create_host_def create_nvme_host_def remove_def
  perform_modify_def modify_name_def modify_paths_def modify_sys_ports_def
  nvme_lifecycle_block_def py_or_def

lemmas mem_defs = mem_conn_def host_def sdc_def start_def known_def update_where_def
  set_limit_def limit_of_def strip_def is_space_def digit_chr_def dec_digits.simps

lemma queries_append: "queries (xs @ ys) = queries xs @ queries ys"
  by (induction xs rule: queries.induct) simp_all

lemma get_sdc_queries:
  "queries (calls (snd (get_sdc conn n ip i w))) = queries (calls w) @ [sdc_filter n ip i]"
  by (simp add: get_sdc_def get_mapped_volumes_def op_defs queries_append
      split: sum.splits list.splits)

lemma get_nvme_host_queries:
  "queries (calls (snd (get_nvme_host conn hid n q w))) =
     queries (calls w) @ (case nvme_filter hid n q of None \<Rightarrow> [] | Some (idn, f) \<Rightarrow> [f])"
  by (simp add: get_nvme_host_def op_defs queries_append
      split: sum.splits list.splits option.splits)

section \<open>Reads, call logs and runs\<close>

lemma get_sdc_reads:
  assumes "get_sdc conn n ip i w = (r, w')"
  shows "remote w' = remote w"
    and "filter (Not \<circ> is_read) (calls w') = filter (Not \<circ> is_read) (calls w)"
  using assms
  by (auto simp: get_sdc_def get_mapped_volumes_def op_defs split: sum.splits list.splits)

lemma get_nvme_host_reads:
  assumes "get_nvme_host conn hid n q w = (r, w')"
  shows "remote w' = remote w"
    and "filter (Not \<circ> is_read) (calls w') = filter (Not \<circ> is_read) (calls w)"
  using assms
  by (auto simp: get_nvme_host_def op_defs split: sum.splits list.splits option.splits if_splits)

lemma get_sdc_found:
  assumes "get_sdc conn n ip i w = (Inr (Some d), w1)"
  shows "\<exists>d0 ds vols. conn_sdc_get conn (remote w) (sdc_filter n ip i) = Inr (d0 # ds)
           \<and> conn_sdc_get_mapped_volumes conn (remote w) (d_id d0) = Inr vols
           \<and> d = d0\<lparr>d_mapped_volumes := Some vols\<rparr>
           \<and> w1 = w\<lparr>calls := calls w @ [SdcGet (sdc_filter n ip i), SdcGetMappedVolumes (d_id d0)]\<rparr>"
  using assms
  by (auto simp: get_sdc_def get_mapped_volumes_def op_defs split: sum.splits list.splits)

lemma get_sdc_again:
  assumes "conn_sdc_get conn (remote w) (sdc_filter n ip i) = Inr (d0 # ds)"
    and "conn_sdc_get_mapped_volumes conn (remote w) (d_id d0) = Inr vols"
  shows "get_sdc conn n ip i w =
           (Inr (Some (d0\<lparr>d_mapped_volumes := Some vols\<rparr>)),
            w\<lparr>calls := calls w @ [SdcGet (sdc_filter n ip i), SdcGetMappedVolumes (d_id d0)]\<rparr>)"
  using assms by (simp add: get_sdc_def get_mapped_volumes_def op_defs)

lemma get_nvme_host_found:
  assumes "get_nvme_host conn hid n q w = (Inr r, w1)"
  shows "\<exists>idn f. nvme_filter hid n q = Some (idn, f) \<and> w1 = record_call (SdcGet f) w"
  using assms
  by (auto simp: get_nvme_host_def fail_json_def Let_def
      split: sum.splits list.splits option.splits if_splits)

lemma modify_name_calls:
  "calls (snd (modify_name conn d nn m w)) =
     calls w @ (case nn of None \<Rightarrow> []
                | Some x \<Rightarrow> if Some x \<noteq> d_name d then [SdcRename (d_id d) x] else [])"
  by (simp add: modify_name_def op_defs split: option.splits sum.splits)

lemma modify_paths_calls:
  "calls (snd (modify_paths conn d mp m w)) =
     calls w @ (case truthy_str mp of None \<Rightarrow> []
                | Some v \<Rightarrow> if v \<noteq> py_str (d_maxNumPaths d)
                            then [HostModifyMaxNumPaths (d_id d) v] else [])"
  by (simp add: modify_paths_def op_defs split: option.splits sum.splits)

lemma modify_sys_ports_calls:
  "calls (snd (modify_sys_ports conn d msp m w)) =
     calls w @ (case truthy_str msp of None \<Rightarrow> []
                | Some v \<Rightarrow> if v \<noteq> py_str (d_maxNumSysPorts d)
                            then [HostModifyMaxNumSysPorts (d_id d) v] else [])"
  by (simp add: modify_sys_ports_def op_defs split: option.splits sum.splits)

lemma perform_modify_calls:
  "\<exists>cs. calls (snd (perform_modify conn d nn mp msp w)) = calls w @ cs
      \<and> set cs \<subseteq>
          set (case nn of None \<Rightarrow> []
               | Some x \<Rightarrow> if Some x \<noteq> d_name d then [SdcRename (d_id d) x] else [])
        \<union> set (case truthy_str mp of None \<Rightarrow> []
               | Some v \<Rightarrow> if v \<noteq> py_str (d_maxNumPaths d)
                           then [HostModifyMaxNumPaths (d_id d) v] else [])
        \<union> set (case truthy_str msp of None \<Rightarrow> []
               | Some v \<Rightarrow> if v \<noteq> py_str (d_maxNumSysPorts d)
                           then [HostModifyMaxNumSysPorts (d_id d) v] else [])"
proof (cases "modify_name conn d nn False w")
  case (Pair r1 w1)
  note c1 = modify_name_calls [of conn d nn False w, unfolded Pair, simplified]
  show ?thesis
  proof (cases r1)
    case (Inl e)
    with Pair c1 show ?thesis
      by (auto simp add: perform_modify_def m_bind_def)
  next
    case (Inr m1)
    show ?thesis
    proof (cases "modify_paths conn d mp m1 w1")
      case (Pair r2 w2)
      note c2 = modify_paths_calls [of conn d mp m1 w1, unfolded Pair, simplified]
      show ?thesis
      proof (cases r2)
        case (Inl e)
        with \<open>modify_name conn d nn False w = (r1, w1)\<close> \<open>r1 = Inr m1\<close> Pair c1 c2 show ?thesis
          by (auto simp add: perform_modify_def m_bind_def)
      next
        case (Inr m2)
        note c3 = modify_sys_ports_calls [of conn d msp m2 w2]
        from \<open>modify_name conn d nn False w = (r1, w1)\<close> \<open>r1 = Inr m1\<close> Pair Inr c1 c2 c3
        show ?thesis
          by (auto simp add: perform_modify_def m_bind_def)
      qed
    qed
  qed
qed

lemma perform_modify_noop:
  assumes "nn = None \<or> nn = d_name d"
    and "truthy_str mp = None \<or> mp = Some (py_str (d_maxNumPaths d))"
    and "truthy_str msp = None \<or> msp = Some (py_str (d_maxNumSysPorts d))"
  shows "perform_modify conn d nn mp msp w = (Inr False, w)"
  using assms
  by (auto simp: perform_modify_def modify_name_def modify_paths_def modify_sys_ports_def
      m_bind_def split: option.splits if_splits)

lemma nvme_present_noop:
  assumes "nvme_validate_parameters q = Inr ()" "nvme_state q = Present"
    and "get_nvme_host conn (nvme_host_id q) (nvme_host_name q) (nqn q) w = (Inr (Some d), w1)"
    and "perform_modify conn d (nvme_host_new_name q) (max_num_paths q) (max_num_sys_ports q) w1
           = (Inr False, w1)"
  shows "nvme_perform_module_operation conn q w =
           (Inr \<lparr>changed = False, resource_details = Some d\<rparr>, w1)"
  using assms
  by (simp add: nvme_perform_module_operation_def nvme_lifecycle_block_def m_bind_def
      m_return_def m_lift_def)

lemma strip_Nil: "strip [] = []"
  by (simp add: strip_def)

lemma sdc_changed_run:
  assumes "sdc_perform_module_operation conn p w = (Inr res, w')" and "changed res"
  shows "\<exists>d0 nn wa. get_sdc conn (sdc_name p) (sdc_ip p) (sdc_id p) w = (Inr (Some d0), wa)
           \<and> sdc_new_name p = Some nn \<and> strip nn \<noteq> []
           \<and> (\<exists>r'. conn_sdc_rename conn (remote wa) (d_id d0) nn = Inr r'
                 \<and> get_sdc conn (Some nn) (sdc_ip p) (sdc_id p)
                      ((record_call (SdcRename (d_id d0) nn) wa)\<lparr>remote := r'\<rparr>)
                    = (Inr (resource_details res), w'))"
  using assms
  by (auto simp: sdc_perform_module_operation_def sdc_rename_block_def rename_sdc_def
      m_bind_def m_return_def m_when_def m_lift_def fail_json_def Let_def
      split: sum.splits prod.splits option.splits if_splits)

lemma nvme_changed_run:
  assumes "nvme_perform_module_operation conn q w = (Inr res, w')" and "changed res"
  shows "\<exists>w2. get_nvme_host conn (nvme_host_id q)
                 (py_or (nvme_host_new_name q) (nvme_host_name q)) (nqn q) w2
               = (Inr (resource_details res), w')"
  using assms
  by (auto simp: nvme_perform_module_operation_def m_bind_def m_return_def m_lift_def
      split: sum.splits prod.splits if_splits)

lemma get_sdc_answer:
  assumes "get_sdc conn n ip i w = (Inr r, w1)"
  shows "case r of
           None \<Rightarrow> conn_sdc_get conn (remote w) (sdc_filter n ip i) = Inr []
         | Some d \<Rightarrow> (\<exists>d1 ds vols.
               conn_sdc_get conn (remote w) (sdc_filter n ip i) = Inr (d1 # ds)
             \<and> conn_sdc_get_mapped_volumes conn (remote w) (d_id d1) = Inr vols
             \<and> d = d1\<lparr>d_mapped_volumes := Some vols\<rparr>)"
  using assms
  by (auto simp: get_sdc_def get_mapped_volumes_def op_defs
      split: sum.splits list.splits option.splits)

lemma get_nvme_host_answer:
  assumes "get_nvme_host conn hid n q w = (Inr r, w1)"
  shows "\<exists>idn f. nvme_filter hid n q = Some (idn, f)
           \<and> (case r of
                 None \<Rightarrow> conn_sdc_get conn (remote w) f = Inr []
               | Some d \<Rightarrow> (\<exists>ds. conn_sdc_get conn (remote w) f = Inr (d # ds)))"
  using assms
  by (auto simp: get_nvme_host_def fail_json_def Let_def
      split: sum.splits list.splits option.splits if_splits)

section \<open>Identifier validation\<close>

text \<open>
  C4. With every selector absent (\<open>None\<close>), both modules fail in
  \<open>validate_parameters\<close> with their missing-identifier message, and the world is
  returned as it was: no call reached the connection.
\<close>

theorem missing_identifier:
  assumes "sdc_name p = None" "sdc_id p = None" "sdc_ip p = None"
    and "nvme_host_id q = None" "nvme_host_name q = None" "nqn q = None"
  shows "sdc_perform_module_operation conn p w =
           (Inl (FailJson ''Please provide sdc_name/sdc_id/sdc_ip with valid input.''), w)
       \<and> nvme_perform_module_operation conn q w =
           (Inl (FailJson ''Please provide at least one of nvme_host_id, nvme_host_name or nqn''), w)"
  using assms
  by (simp add: sdc_perform_module_operation_def nvme_perform_module_operation_def
      sdc_validate_parameters_def nvme_validate_parameters_def m_bind_def m_lift_def)

theorem missing_identifier_witness:
  "sdc_perform_module_operation mem_conn
     \<lparr>sdc_name = None, sdc_id = None, sdc_ip = None, sdc_new_name = Some ''n'', sdc_state = Present\<rparr>
     (start [sdc ''abc'' (Some ''centos_sdc'') None]) =
     (Inl (FailJson ''Please provide sdc_name/sdc_id/sdc_ip with valid input.''),
      start [sdc ''abc'' (Some ''centos_sdc'') None])
   \<and> nvme_perform_module_operation mem_conn
     \<lparr>nvme_host_id = None, nvme_host_name = None, nvme_host_new_name = None,
      max_num_paths = Some ''4'', max_num_sys_ports = None, nqn = None, nvme_state = Absent\<rparr>
     (start [sdc ''abc'' (Some ''centos_sdc'') None]) =
     (Inl (FailJson ''Please provide at least one of nvme_host_id, nvme_host_name or nqn''),
      start [sdc ''abc'' (Some ''centos_sdc'') None])"
  using missing_identifier [of
     "\<lparr>sdc_name = None, sdc_id = None, sdc_ip = None, sdc_new_name = Some ''n'', sdc_state = Present\<rparr>"
     "\<lparr>nvme_host_id = None, nvme_host_name = None, nvme_host_new_name = None,
      max_num_paths = Some ''4'', max_num_sys_ports = None, nqn = None, nvme_state = Absent\<rparr>"
     mem_conn "start [sdc ''abc'' (Some ''centos_sdc'') None]"]
  by simp

text \<open>
  A selector that is present and blank is rejected by \<open>validate_parameters\<close> for the
  three selectors of the SDC module and for \<open>nvme_host_id\<close> and \<open>nvme_host_name\<close>,
  before any call.
\<close>

lemma blank_selector_rejected:
  assumes "strip s = []"
  shows "sdc_perform_module_operation conn (p\<lparr>sdc_name := Some s, sdc_id := None, sdc_ip := None\<rparr>) w
           = (Inl (FailJson ''Please provide valid sdc_name''), w)"
    and "sdc_perform_module_operation conn (p\<lparr>sdc_name := None, sdc_id := Some s, sdc_ip := None\<rparr>) w
           = (Inl (FailJson ''Please provide valid sdc_id''), w)"
    and "sdc_perform_module_operation conn (p\<lparr>sdc_name := None, sdc_id := None, sdc_ip := Some s\<rparr>) w
           = (Inl (FailJson ''Please provide valid sdc_ip''), w)"
    and "nvme_perform_module_operation conn (q\<lparr>nvme_host_id := Some s, nvme_host_name := None, nqn := None\<rparr>) w
           = (Inl (FailJson ''Please provide valid nvme_host_id''), w)"
    and "nvme_perform_module_operation conn (q\<lparr>nvme_host_id := None, nvme_host_name := Some s, nqn := None\<rparr>) w
           = (Inl (FailJson ''Please provide valid nvme_host_name''), w)"
  using assms by (simp_all add: sdc_defs nvme_defs op_defs)

text \<open>
  C5. The claim asks that a whitespace-only selector fails for every selector class,
  the NVMe-host \<open>nqn\<close> included. \<open>validate_parameters\<close> of the NVMe-host module
  checks \<open>nvme_host_id\<close> and \<open>nvme_host_name\<close> only: with the single selector
  \<open>nqn = "  "\<close> and \<open>state = absent\<close> the module queries the remote system by that
  nqn and exits successfully with \<open>changed = False\<close>.
\<close>

theorem blank_nqn_accepted:
  "nvme_perform_module_operation mem_conn
     \<lparr>nvme_host_id = None, nvme_host_name = None, nvme_host_new_name = None,
      max_num_paths = None, max_num_sys_ports = None, nqn = Some ''  '', nvme_state = Absent\<rparr>
     (start [host ''h1'' (Some ''a'') (Some ''nqn.x'') 3 3]) =
   (Inr \<lparr>changed = False, resource_details = None\<rparr>,
    \<lparr>remote = [host ''h1'' (Some ''a'') (Some ''nqn.x'') 3 3], calls = [SdcGet (ByNqn ''  '')]\<rparr>)"
  by (simp add: nvme_defs op_defs mem_defs)

section \<open>New names\<close>

text \<open>
  On the rename path of the SDC module a new name that is blank after stripping fails
  with the module's message, after the lookup and before any rename call.
\<close>

lemma sdc_blank_new_name_rejected:
  assumes "sdc_state p = Present" "sdc_new_name p = Some nn" "strip nn = []"
    and "sdc_validate_parameters p = Inr ()"
    and "get_sdc conn (sdc_name p) (sdc_ip p) (sdc_id p) w = (Inr (Some d), w1)"
  shows "sdc_perform_module_operation conn p w = (Inl (FailJson ''Please provide valid SDC name.''), w1)"
  using assms by (simp add: sdc_perform_module_operation_def sdc_rename_block_def op_defs)

text \<open>
  C8. The claim asks the same of the NVMe-host module. \<open>perform_modify\<close> compares the
  new name with the current one and nothing else: for the new name \<open>"  "\<close> on an
  existing host it issues the rename call with that name and reports \<open>changed = True\<close>.
\<close>

theorem blank_new_name_renames:
  "nvme_perform_module_operation mem_conn
     \<lparr>nvme_host_id = Some ''h1'', nvme_host_name = None, nvme_host_new_name = Some ''  '',
      max_num_paths = None, max_num_sys_ports = None, nqn = None, nvme_state = Present\<rparr>
     (start [host ''h1'' (Some ''a'') (Some ''nqn.x'') 3 3]) =
   (Inr \<lparr>changed = True, resource_details = Some (host ''h1'' (Some ''  '') (Some ''nqn.x'') 3 3)\<rparr>,
    \<lparr>remote = [host ''h1'' (Some ''  '') (Some ''nqn.x'') 3 3],
     calls = [SdcGet (ById (Some ''h1'')), SdcRename ''h1'' ''  '', SdcGet (ByName ''  '')]\<rparr>)"
  by (simp add: nvme_defs op_defs mem_defs)

section \<open>Removal of an SDC\<close>

text \<open>
  C3, as stated, fails: with \<open>state = absent\<close> and no SDC of the given name the SDC
  module does not fail, it exits with \<open>changed = False\<close> and no details.
\<close>

theorem sdc_absent_missing_counterexample:
  "sdc_perform_module_operation mem_conn
     \<lparr>sdc_name = Some ''centos_sdc'', sdc_id = None, sdc_ip = None, sdc_new_name = None,
      sdc_state = Absent\<rparr> (start []) =
   (Inr \<lparr>changed = False, resource_details = None\<rparr>,
    \<lparr>remote = [], calls = [SdcGet (ByName ''centos_sdc'')]\<rparr>)"
  by (simp add: sdc_defs op_defs mem_defs)

text \<open>
  C3, amended. For the SDC module, an invocation with \<open>state = absent\<close> that passes
  validation and whose lookup returns fails with the removal-not-allowed message exactly
  when the lookup found the SDC; when it found none the invocation is a no-op with
  \<open>changed = False\<close> and no details.
\<close>

theorem sdc_absent:
  assumes "sdc_state p = Absent"
    and "sdc_validate_parameters p = Inr ()"
    and "get_sdc conn (sdc_name p) (sdc_ip p) (sdc_id p) w = (Inr found, w1)"
  shows "sdc_perform_module_operation conn p w =
           (if found \<noteq> None
            then (Inl (FailJson ''Removal of SDC is not allowed through Ansible module.''), w1)
            else (Inr \<lparr>changed = False, resource_details = None\<rparr>, w1))"
  using assms by (simp add: sdc_perform_module_operation_def sdc_rename_block_def op_defs)

theorem sdc_absent_witness:
  "sdc_perform_module_operation mem_conn
     \<lparr>sdc_name = Some ''centos_sdc'', sdc_id = None, sdc_ip = None, sdc_new_name = None,
      sdc_state = Absent\<rparr> (start [sdc ''abc'' (Some ''centos_sdc'') None]) =
   (Inl (FailJson ''Removal of SDC is not allowed through Ansible module.''),
    \<lparr>remote = [sdc ''abc'' (Some ''centos_sdc'') None],
     calls = [SdcGet (ByName ''centos_sdc''), SdcGetMappedVolumes ''abc'']\<rparr>)"
  using sdc_absent [of
     "\<lparr>sdc_name = Some ''centos_sdc'', sdc_id = None, sdc_ip = None, sdc_new_name = None,
      sdc_state = Absent\<rparr>" mem_conn "start [sdc ''abc'' (Some ''centos_sdc'') None]"
     "Some ((sdc ''abc'' (Some ''centos_sdc'') None)\<lparr>d_mapped_volumes := Some []\<rparr>)"
     "\<lparr>remote = [sdc ''abc'' (Some ''centos_sdc'') None],
     calls = [SdcGet (ByName ''centos_sdc''), SdcGetMappedVolumes ''abc'']\<rparr>"]
  by (simp add: sdc_validate_parameters_def get_sdc_def get_mapped_volumes_def sdc_filter_def
      op_defs mem_defs)

section \<open>Lookup\<close>

text \<open>
  C6, as stated, fails for the SDC module: an id-based lookup with zero matches and
  \<open>state = absent\<close> is a successful no-op.
\<close>

theorem sdc_zero_matches_counterexample:
  "sdc_perform_module_operation mem_conn
     \<lparr>sdc_name = None, sdc_id = Some ''nonexistent'', sdc_ip = None, sdc_new_name = None,
      sdc_state = Absent\<rparr> (start []) =
   (Inr \<lparr>changed = False, resource_details = None\<rparr>,
    \<lparr>remote = [], calls = [SdcGet (ById (Some ''nonexistent''))]\<rparr>)"
  by (simp add: sdc_defs op_defs mem_defs)

text \<open>
  C6, amended. Each kind on its own, when the query of its lookup returns no record:
  \<open>get_sdc\<close> returns \<open>None\<close> without failing, whatever the selector, and the SDC
  module then fails with its not-found message when \<open>state = present\<close> and is a no-op
  with \<open>changed = False\<close> when \<open>state = absent\<close>; \<open>get_nvme_host\<close> fails with its
  not-found message when \<open>nvme_host_id\<close> is given and returns \<open>None\<close> otherwise, so
  the NVMe-host module fails whatever the state when \<open>nvme_host_id\<close> is given, and
  is a no-op with \<open>changed = False\<close> when it is not given and \<open>state = absent\<close>.
\<close>

theorem zero_matches:
  "(conn_sdc_get conn (remote w) (sdc_filter (sdc_name p) (sdc_ip p) (sdc_id p)) = Inr [] \<longrightarrow>
      get_sdc conn (sdc_name p) (sdc_ip p) (sdc_id p) w =
        (Inr None, record_call (SdcGet (sdc_filter (sdc_name p) (sdc_ip p) (sdc_id p))) w))
 \<and> (sdc_validate_parameters p = Inr ()
      \<and> conn_sdc_get conn (remote w) (sdc_filter (sdc_name p) (sdc_ip p) (sdc_id p)) = Inr [] \<longrightarrow>
      sdc_perform_module_operation conn p w =
        (if sdc_state p = Present
         then Inl (FailJson (''Could not find any SDC instance with identifier ''
                @ fmt (id_ip_name (sdc_name p) (sdc_ip p) (sdc_id p)) @ ''.''))
         else Inr \<lparr>changed = False, resource_details = None\<rparr>,
         record_call (SdcGet (sdc_filter (sdc_name p) (sdc_ip p) (sdc_id p))) w))
 \<and> (nvme_filter (nvme_host_id q) (nvme_host_name q) (nqn q) = Some (id_name, flt)
      \<and> conn_sdc_get conn' (remote v) flt = Inr [] \<longrightarrow>
      get_nvme_host conn' (nvme_host_id q) (nvme_host_name q) (nqn q) v =
        (if truthy_str (nvme_host_id q) \<noteq> None
         then Inl (FailJson (''Unable to find NVMe host with identifier '' @ id_name))
         else Inr None,
         record_call (SdcGet flt) v))
 \<and> (nvme_validate_parameters q = Inr ()
      \<and> nvme_filter (nvme_host_id q) (nvme_host_name q) (nqn q) = Some (id_name, flt)
      \<and> conn_sdc_get conn' (remote v) flt = Inr []
      \<and> truthy_str (nvme_host_id q) \<noteq> None \<longrightarrow>
      nvme_perform_module_operation conn' q v =
        (Inl (FailJson (''Unable to find NVMe host with identifier '' @ id_name)),
         record_call (SdcGet flt) v))
 \<and> (nvme_validate_parameters q = Inr ()
      \<and> nvme_filter (nvme_host_id q) (nvme_host_name q) (nqn q) = Some (id_name, flt)
      \<and> conn_sdc_get conn' (remote v) flt = Inr []
      \<and> truthy_str (nvme_host_id q) = None \<and> nvme_state q = Absent \<longrightarrow>
      nvme_perform_module_operation conn' q v =
        (Inr \<lparr>changed = False, resource_details = None\<rparr>, record_call (SdcGet flt) v))"
proof -
  have gs: "conn_sdc_get conn (remote w) (sdc_filter (sdc_name p) (sdc_ip p) (sdc_id p)) = Inr [] \<longrightarrow>
      get_sdc conn (sdc_name p) (sdc_ip p) (sdc_id p) w =
        (Inr None, record_call (SdcGet (sdc_filter (sdc_name p) (sdc_ip p) (sdc_id p))) w)"
    by (simp add: get_sdc_def)
  have ps: "sdc_validate_parameters p = Inr ()
      \<and> conn_sdc_get conn (remote w) (sdc_filter (sdc_name p) (sdc_ip p) (sdc_id p)) = Inr [] \<longrightarrow>
      sdc_perform_module_operation conn p w =
        (if sdc_state p = Present
         then Inl (FailJson (''Could not find any SDC instance with identifier ''
                @ fmt (id_ip_name (sdc_name p) (sdc_ip p) (sdc_id p)) @ ''.''))
         else Inr \<lparr>changed = False, resource_details = None\<rparr>,
         record_call (SdcGet (sdc_filter (sdc_name p) (sdc_ip p) (sdc_id p))) w)"
    using gs
    by (simp add: sdc_perform_module_operation_def sdc_rename_block_def m_bind_def m_return_def
        m_when_def m_lift_def fail_json_def)
  have gn: "nvme_filter (nvme_host_id q) (nvme_host_name q) (nqn q) = Some (id_name, flt)
      \<and> conn_sdc_get conn' (remote v) flt = Inr [] \<longrightarrow>
      get_nvme_host conn' (nvme_host_id q) (nvme_host_name q) (nqn q) v =
        (if truthy_str (nvme_host_id q) \<noteq> None
         then Inl (FailJson (''Unable to find NVMe host with identifier '' @ id_name))
         else Inr None,
         record_call (SdcGet flt) v)"
    by (simp add: get_nvme_host_def fail_json_def)
  have pn: "nvme_validate_parameters q = Inr ()
      \<and> nvme_filter (nvme_host_id q) (nvme_host_name q) (nqn q) = Some (id_name, flt)
      \<and> conn_sdc_get conn' (remote v) flt = Inr []
      \<and> truthy_str (nvme_host_id q) \<noteq> None \<longrightarrow>
      nvme_perform_module_operation conn' q v =
        (Inl (FailJson (''Unable to find NVMe host with identifier '' @ id_name)),
         record_call (SdcGet flt) v)"
    using gn
    by (simp add: nvme_perform_module_operation_def m_bind_def m_lift_def)
  have pa: "nvme_validate_parameters q = Inr ()
      \<and> nvme_filter (nvme_host_id q) (nvme_host_name q) (nqn q) = Some (id_name, flt)
      \<and> conn_sdc_get conn' (remote v) flt = Inr []
      \<and> truthy_str (nvme_host_id q) = None \<and> nvme_state q = Absent \<longrightarrow>
      nvme_perform_module_operation conn' q v =
        (Inr \<lparr>changed = False, resource_details = None\<rparr>, record_call (SdcGet flt) v)"
    using gn
    by (simp add: nvme_perform_module_operation_def nvme_lifecycle_block_def m_bind_def
        m_lift_def m_return_def)
  from gs ps gn pn pa show ?thesis by (intro conjI)
qed

theorem zero_matches_witness:
  "get_sdc mem_conn None (Some ''10.9.9.9'') None (start [sdc ''abc'' (Some ''centos_sdc'') (Some ''10.0.0.1'')]) =
     (Inr None,
      \<lparr>remote = [sdc ''abc'' (Some ''centos_sdc'') (Some ''10.0.0.1'')],
       calls = [SdcGet (BySdcIp ''10.9.9.9'')]\<rparr>)
   \<and> sdc_perform_module_operation mem_conn
     \<lparr>sdc_name = None, sdc_id = Some ''nonexistent'', sdc_ip = None, sdc_new_name = None,
      sdc_state = Present\<rparr> (start []) =
     (Inl (FailJson ''Could not find any SDC instance with identifier nonexistent.''),
      \<lparr>remote = [], calls = [SdcGet (ById (Some ''nonexistent''))]\<rparr>)
   \<and> get_nvme_host mem_conn None (Some ''ghost'') None (start []) =
     (Inr None, \<lparr>remote = [], calls = [SdcGet (ByName ''ghost'')]\<rparr>)
   \<and> nvme_perform_module_operation mem_conn
     \<lparr>nvme_host_id = Some ''nonexistent'', nvme_host_name = None, nvme_host_new_name = None,
      max_num_paths = None, max_num_sys_ports = None, nqn = None, nvme_state = Absent\<rparr> (start []) =
     (Inl (FailJson ''Unable to find NVMe host with identifier nonexistent''),
      \<lparr>remote = [], calls = [SdcGet (ById (Some ''nonexistent''))]\<rparr>)
   \<and> nvme_perform_module_operation mem_conn
     \<lparr>nvme_host_id = None, nvme_host_name = None, nvme_host_new_name = None,
      max_num_paths = None, max_num_sys_ports = None, nqn = Some ''nqn.z'', nvme_state = Absent\<rparr>
     (start []) =
     (Inr \<lparr>changed = False, resource_details = None\<rparr>,
      \<lparr>remote = [], calls = [SdcGet (ByNqn ''nqn.z'')]\<rparr>)"
  using zero_matches [where conn = mem_conn
      and w = "start [sdc ''abc'' (Some ''centos_sdc'') (Some ''10.0.0.1'')]"
      and p = "\<lparr>sdc_name = None, sdc_id = None, sdc_ip = Some ''10.9.9.9'', sdc_new_name = None,
               sdc_state = Present\<rparr>"
      and conn' = mem_conn and v = "start []"
      and q = "\<lparr>nvme_host_id = None, nvme_host_name = Some ''ghost'', nvme_host_new_name = None,
               max_num_paths = None, max_num_sys_ports = None, nqn = None, nvme_state = Present\<rparr>"
      and id_name = "''ghost''" and flt = "ByName ''ghost''"]
    zero_matches [where conn = mem_conn and w = "start []"
      and p = "\<lparr>sdc_name = None, sdc_id = Some ''nonexistent'', sdc_ip = None, sdc_new_name = None,
               sdc_state = Present\<rparr>"
      and conn' = mem_conn and v = "start []"
      and q = "\<lparr>nvme_host_id = Some ''nonexistent'', nvme_host_name = None, nvme_host_new_name = None,
               max_num_paths = None, max_num_sys_ports = None, nqn = None, nvme_state = Absent\<rparr>"
      and id_name = "''nonexistent''" and flt = "ById (Some ''nonexistent'')"]
    zero_matches [where conn = mem_conn and w = "start []"
      and p = "\<lparr>sdc_name = None, sdc_id = Some ''nonexistent'', sdc_ip = None, sdc_new_name = None,
               sdc_state = Present\<rparr>"
      and conn' = mem_conn and v = "start []"
      and q = "\<lparr>nvme_host_id = None, nvme_host_name = None, nvme_host_new_name = None,
               max_num_paths = None, max_num_sys_ports = None, nqn = Some ''nqn.z'', nvme_state = Absent\<rparr>"
      and id_name = "''nqn.z''" and flt = "ByNqn ''nqn.z''"]
  by (simp add: sdc_validate_parameters_def nvme_validate_parameters_def sdc_filter_def
      nvme_filter_def id_ip_name_def record_call_def strip_def is_space_def mem_conn_def start_def
      sdc_def)

text \<open>
  C7, as stated, fails: an NVMe-host lookup given both \<open>nvme_host_id\<close> and \<open>nqn\<close>
  queries by id.
\<close>

theorem nvme_id_before_nqn_counterexample:
  "calls (snd (get_nvme_host mem_conn (Some ''h1'') None (Some ''nqn.x'')
     (start [host ''h1'' (Some ''a'') (Some ''nqn.x'') 3 3]))) = [SdcGet (ById (Some ''h1''))]"
  by (simp add: nvme_defs op_defs mem_defs)

text \<open>
  C7, amended. A lookup issues one query, by the first selector that is non-empty: in
  the order name, ip, id for the SDC module and name, id, nqn for the NVMe-host module
  (so a lookup given both \<open>nvme_host_id\<close> and \<open>nqn\<close> queries by id). No other
  selector is tried, and for either kind the first record of the answer is returned
  (by \<open>get_sdc\<close> with the mapped volumes of that record attached).
\<close>

theorem lookup_order:
  "(truthy_str n = Some x \<longrightarrow>
      queries (calls (snd (get_sdc conn n ip i w))) = queries (calls w) @ [ByName x]
    \<and> queries (calls (snd (get_nvme_host conn hid n q w))) = queries (calls w) @ [ByName x])
 \<and> (truthy_str n = None \<and> truthy_str ip = Some y \<longrightarrow>
      queries (calls (snd (get_sdc conn n ip i w))) = queries (calls w) @ [BySdcIp y])
 \<and> (truthy_str n = None \<and> truthy_str ip = None \<longrightarrow>
      queries (calls (snd (get_sdc conn n ip i w))) = queries (calls w) @ [ById i])
 \<and> (truthy_str n = None \<and> truthy_str hid = Some z \<longrightarrow>
      queries (calls (snd (get_nvme_host conn hid n q w))) = queries (calls w) @ [ById (Some z)])
 \<and> (truthy_str n = None \<and> truthy_str hid = None \<and> truthy_str q = Some u \<longrightarrow>
      queries (calls (snd (get_nvme_host conn hid n q w))) = queries (calls w) @ [ByNqn u])
 \<and> (conn_sdc_get conn (remote w) (sdc_filter n ip i) = Inr (sd # sds)
      \<and> conn_sdc_get_mapped_volumes conn (remote w) (d_id sd) = Inr vols \<longrightarrow>
      fst (get_sdc conn n ip i w) = Inr (Some (sd\<lparr>d_mapped_volumes := Some vols\<rparr>)))
 \<and> (nvme_filter hid n q = Some (idn, f) \<and> conn_sdc_get conn (remote w) f = Inr (d # ds) \<longrightarrow>
      fst (get_nvme_host conn hid n q w) = Inr (Some d))"
proof -
  have first_nvme: "nvme_filter hid n q = Some (idn, f) \<and> conn_sdc_get conn (remote w) f = Inr (d # ds) \<longrightarrow>
      fst (get_nvme_host conn hid n q w) = Inr (Some d)"
    by (simp add: get_nvme_host_def Let_def)
  have first_sdc: "conn_sdc_get conn (remote w) (sdc_filter n ip i) = Inr (sd # sds)
      \<and> conn_sdc_get_mapped_volumes conn (remote w) (d_id sd) = Inr vols \<longrightarrow>
      fst (get_sdc conn n ip i w) = Inr (Some (sd\<lparr>d_mapped_volumes := Some vols\<rparr>))"
    by (simp add: get_sdc_again)
  have rest: "(truthy_str n = Some x \<longrightarrow>
      queries (calls (snd (get_sdc conn n ip i w))) = queries (calls w) @ [ByName x]
    \<and> queries (calls (snd (get_nvme_host conn hid n q w))) = queries (calls w) @ [ByName x])
 \<and> (truthy_str n = None \<and> truthy_str ip = Some y \<longrightarrow>
      queries (calls (snd (get_sdc conn n ip i w))) = queries (calls w) @ [BySdcIp y])
 \<and> (truthy_str n = None \<and> truthy_str ip = None \<longrightarrow>
      queries (calls (snd (get_sdc conn n ip i w))) = queries (calls w) @ [ById i])
 \<and> (truthy_str n = None \<and> truthy_str hid = Some z \<longrightarrow>
      queries (calls (snd (get_nvme_host conn hid n q w))) = queries (calls w) @ [ById (Some z)])
 \<and> (truthy_str n = None \<and> truthy_str hid = None \<and> truthy_str q = Some u \<longrightarrow>
      queries (calls (snd (get_nvme_host conn hid n q w))) = queries (calls w) @ [ByNqn u])"
    by (simp add: get_sdc_queries get_nvme_host_queries sdc_filter_def nvme_filter_def)
  from rest first_sdc first_nvme show ?thesis by blast
qed

theorem lookup_order_witness:
  "queries (calls (snd (get_sdc mem_conn (Some ''centos_sdc'') (Some ''10.0.0.1'') (Some ''abc'')
      (start [sdc ''abc'' (Some ''centos_sdc'') (Some ''10.0.0.1'')])))) = [ByName ''centos_sdc'']
 \<and> queries (calls (snd (get_sdc mem_conn None (Some ''10.0.0.1'') (Some ''abc'')
      (start [sdc ''abc'' (Some ''centos_sdc'') (Some ''10.0.0.1'')])))) = [BySdcIp ''10.0.0.1'']
 \<and> queries (calls (snd (get_sdc mem_conn None None (Some ''abc'')
      (start [sdc ''abc'' (Some ''centos_sdc'') (Some ''10.0.0.1'')])))) = [ById (Some ''abc'')]
 \<and> queries (calls (snd (get_nvme_host mem_conn (Some ''h1'') (Some ''a'') (Some ''nqn.x'')
      (start [host ''h1'' (Some ''a'') (Some ''nqn.x'') 3 3])))) = [ByName ''a'']
 \<and> queries (calls (snd (get_nvme_host mem_conn (Some ''h1'') None (Some ''nqn.x'')
      (start [host ''h1'' (Some ''a'') (Some ''nqn.x'') 3 3])))) = [ById (Some ''h1'')]
 \<and> queries (calls (snd (get_nvme_host mem_conn None None (Some ''nqn.x'')
      (start [host ''h1'' (Some ''a'') (Some ''nqn.x'') 3 3])))) = [ByNqn ''nqn.x'']
 \<and> fst (get_sdc mem_conn None (Some ''10.0.0.1'') None
      (start [(sdc ''abc'' (Some ''centos_sdc'') (Some ''10.0.0.1''))
                \<lparr>d_mapped_volumes := Some [Volume ''v1'' ''vol1'']\<rparr>,
              sdc ''def'' (Some ''other_sdc'') (Some ''10.0.0.1'')])) =
      Inr (Some ((sdc ''abc'' (Some ''centos_sdc'') (Some ''10.0.0.1''))
                \<lparr>d_mapped_volumes := Some [Volume ''v1'' ''vol1'']\<rparr>))
 \<and> fst (get_nvme_host mem_conn None (Some ''a'') None
      (start [host ''h1'' (Some ''a'') (Some ''nqn.x'') 3 3,
              host ''h2'' (Some ''a'') (Some ''nqn.y'') 5 5])) =
      Inr (Some (host ''h1'' (Some ''a'') (Some ''nqn.x'') 3 3))"
  using lookup_order [where n = "Some ''centos_sdc''" and x = "''centos_sdc''" and conn = mem_conn
      and ip = "Some ''10.0.0.1''" and i = "Some ''abc''"
      and w = "start [sdc ''abc'' (Some ''centos_sdc'') (Some ''10.0.0.1'')]"]
    lookup_order [where n = None and conn = mem_conn and ip = "Some ''10.0.0.1''" and i = "Some ''abc''"
      and w = "start [sdc ''abc'' (Some ''centos_sdc'') (Some ''10.0.0.1'')]" and y = "''10.0.0.1''"]
    lookup_order [where n = None and conn = mem_conn and ip = None and i = "Some ''abc''"
      and w = "start [sdc ''abc'' (Some ''centos_sdc'') (Some ''10.0.0.1'')]"]
    lookup_order [where n = "Some ''a''" and x = "''a''" and conn = mem_conn
      and w = "start [host ''h1'' (Some ''a'') (Some ''nqn.x'') 3 3]" and hid = "Some ''h1''"
      and q = "Some ''nqn.x''"]
    lookup_order [where n = None and conn = mem_conn
      and w = "start [host ''h1'' (Some ''a'') (Some ''nqn.x'') 3 3]" and hid = "Some ''h1''"
      and q = "Some ''nqn.x''" and z = "''h1''"]
    lookup_order [where n = None and conn = mem_conn
      and w = "start [host ''h1'' (Some ''a'') (Some ''nqn.x'') 3 3]" and hid = None
      and q = "Some ''nqn.x''" and u = "''nqn.x''"]
    lookup_order [where n = None and conn = mem_conn and ip = "Some ''10.0.0.1''" and i = None
      and w = "start [(sdc ''abc'' (Some ''centos_sdc'') (Some ''10.0.0.1''))
                \<lparr>d_mapped_volumes := Some [Volume ''v1'' ''vol1'']\<rparr>,
              sdc ''def'' (Some ''other_sdc'') (Some ''10.0.0.1'')]"
      and sd = "(sdc ''abc'' (Some ''centos_sdc'') (Some ''10.0.0.1''))
                \<lparr>d_mapped_volumes := Some [Volume ''v1'' ''vol1'']\<rparr>"
      and sds = "[sdc ''def'' (Some ''other_sdc'') (Some ''10.0.0.1'')]"
      and vols = "[Volume ''v1'' ''vol1'']"]
    lookup_order [where n = "Some ''a''" and conn = mem_conn and hid = None and q = None
      and w = "start [host ''h1'' (Some ''a'') (Some ''nqn.x'') 3 3,
              host ''h2'' (Some ''a'') (Some ''nqn.y'') 5 5]"
      and idn = "''a''" and f = "ByName ''a''"
      and d = "host ''h1'' (Some ''a'') (Some ''nqn.x'') 3 3"
      and ds = "[host ''h2'' (Some ''a'') (Some ''nqn.y'') 5 5]"]
  by (simp add: start_def nvme_filter_def sdc_filter_def mem_conn_def host_def sdc_def)

section \<open>Tunable limits\<close>

text \<open>
  C2. In \<open>perform_modify\<close> a modify call for \<open>max_num_paths\<close> (and likewise for
  \<open>max_num_sys_ports\<close>) is issued only for the host found, with the supplied value,
  and only when that value is non-empty and differs from \<open>str\<close> of the current remote
  value. In particular, for an existing record whose \<open>maxNumPaths\<close> is the integer 3
  and the desired \<open>max_num_paths = "3"\<close> (nothing else requested), the invocation issues
  the lookup and no other call, and returns \<open>changed = False\<close> with the record found.
\<close>

theorem limit_applied_only_when_different:
  "(HostModifyMaxNumPaths i v \<in>
       set (drop (length (calls w)) (calls (snd (perform_modify conn d nn mp msp w)))) \<longrightarrow>
      i = d_id d \<and> truthy_str mp = Some v \<and> v \<noteq> py_str (d_maxNumPaths d))
 \<and> (HostModifyMaxNumSysPorts i v \<in>
       set (drop (length (calls w)) (calls (snd (perform_modify conn d nn mp msp w)))) \<longrightarrow>
      i = d_id d \<and> truthy_str msp = Some v \<and> v \<noteq> py_str (d_maxNumSysPorts d))
 \<and> (nvme_validate_parameters q = Inr () \<and> nvme_state q = Present
      \<and> get_nvme_host conn (nvme_host_id q) (nvme_host_name q) (nqn q) w = (Inr (Some d), w1)
      \<and> d_maxNumPaths d = PInt 3 \<and> max_num_paths q = Some ''3''
      \<and> nvme_host_new_name q = None \<and> max_num_sys_ports q = None \<longrightarrow>
      nvme_perform_module_operation conn q w =
        (Inr \<lparr>changed = False, resource_details = Some d\<rparr>, w1)
      \<and> (\<exists>idn f. nvme_filter (nvme_host_id q) (nvme_host_name q) (nqn q) = Some (idn, f)
            \<and> w1 = record_call (SdcGet f) w))"
proof -
  obtain cs where cs: "calls (snd (perform_modify conn d nn mp msp w)) = calls w @ cs"
    and sub: "set cs \<subseteq>
          set (case nn of None \<Rightarrow> []
               | Some x \<Rightarrow> if Some x \<noteq> d_name d then [SdcRename (d_id d) x] else [])
        \<union> set (case truthy_str mp of None \<Rightarrow> []
               | Some v \<Rightarrow> if v \<noteq> py_str (d_maxNumPaths d)
                           then [HostModifyMaxNumPaths (d_id d) v] else [])
        \<union> set (case truthy_str msp of None \<Rightarrow> []
               | Some v \<Rightarrow> if v \<noteq> py_str (d_maxNumSysPorts d)
                           then [HostModifyMaxNumSysPorts (d_id d) v] else [])"
    using perform_modify_calls [of conn d nn mp msp w] by blast
  have paths: "HostModifyMaxNumPaths i v \<in>
       set (drop (length (calls w)) (calls (snd (perform_modify conn d nn mp msp w)))) \<longrightarrow>
      i = d_id d \<and> truthy_str mp = Some v \<and> v \<noteq> py_str (d_maxNumPaths d)"
    using sub unfolding cs by (auto split: option.splits if_splits)
  have ports: "HostModifyMaxNumSysPorts i v \<in>
       set (drop (length (calls w)) (calls (snd (perform_modify conn d nn mp msp w)))) \<longrightarrow>
      i = d_id d \<and> truthy_str msp = Some v \<and> v \<noteq> py_str (d_maxNumSysPorts d)"
    using sub unfolding cs by (auto split: option.splits if_splits)
  have three: "py_str (PInt 3) = ''3''"
    by (simp add: dec_digits.simps digit_chr_def)
  have scen: "nvme_validate_parameters q = Inr () \<and> nvme_state q = Present
      \<and> get_nvme_host conn (nvme_host_id q) (nvme_host_name q) (nqn q) w = (Inr (Some d), w1)
      \<and> d_maxNumPaths d = PInt 3 \<and> max_num_paths q = Some ''3''
      \<and> nvme_host_new_name q = None \<and> max_num_sys_ports q = None \<longrightarrow>
      nvme_perform_module_operation conn q w =
        (Inr \<lparr>changed = False, resource_details = Some d\<rparr>, w1)
      \<and> (\<exists>idn f. nvme_filter (nvme_host_id q) (nvme_host_name q) (nqn q) = Some (idn, f)
            \<and> w1 = record_call (SdcGet f) w)"
  proof (intro impI, elim conjE)
    assume a: "nvme_validate_parameters q = Inr ()" "nvme_state q = Present"
      "get_nvme_host conn (nvme_host_id q) (nvme_host_name q) (nqn q) w = (Inr (Some d), w1)"
      and b: "d_maxNumPaths d = PInt 3" "max_num_paths q = Some ''3''"
      "nvme_host_new_name q = None" "max_num_sys_ports q = None"
    have "perform_modify conn d (nvme_host_new_name q) (max_num_paths q) (max_num_sys_ports q) w1
           = (Inr False, w1)"
      by (rule perform_modify_noop) (simp_all add: b three del: py_str.simps)
    from nvme_present_noop [OF a this] get_nvme_host_found [OF a(3)]
    show "nvme_perform_module_operation conn q w =
        (Inr \<lparr>changed = False, resource_details = Some d\<rparr>, w1)
      \<and> (\<exists>idn f. nvme_filter (nvme_host_id q) (nvme_host_name q) (nqn q) = Some (idn, f)
            \<and> w1 = record_call (SdcGet f) w)"
      by blast
  qed
  from paths ports scen show ?thesis by blast
qed

theorem limit_applied_only_when_different_witness:
  "nvme_perform_module_operation mem_conn
     \<lparr>nvme_host_id = Some ''h1'', nvme_host_name = None, nvme_host_new_name = None,
      max_num_paths = Some ''3'', max_num_sys_ports = None, nqn = None, nvme_state = Present\<rparr>
     (start [host ''h1'' (Some ''nvme_host_test'') (Some ''nqn.x'') 3 3]) =
   (Inr \<lparr>changed = False,
         resource_details = Some (host ''h1'' (Some ''nvme_host_test'') (Some ''nqn.x'') 3 3)\<rparr>,
    \<lparr>remote = [host ''h1'' (Some ''nvme_host_test'') (Some ''nqn.x'') 3 3],
     calls = [SdcGet (ById (Some ''h1''))]\<rparr>)
 \<and> calls (snd (perform_modify mem_conn (host ''h1'' (Some ''nvme_host_test'') (Some ''nqn.x'') 3 3)
        None (Some ''4'') (Some ''5'')
        (start [host ''h1'' (Some ''nvme_host_test'') (Some ''nqn.x'') 3 3]))) =
     [HostModifyMaxNumPaths ''h1'' ''4'', HostModifyMaxNumSysPorts ''h1'' ''5'']
 \<and> ''4'' \<noteq> py_str (d_maxNumPaths (host ''h1'' (Some ''nvme_host_test'') (Some ''nqn.x'') 3 3))
 \<and> ''5'' \<noteq> py_str (d_maxNumSysPorts (host ''h1'' (Some ''nvme_host_test'') (Some ''nqn.x'') 3 3))"
proof -
  have run: "calls (snd (perform_modify mem_conn (host ''h1'' (Some ''nvme_host_test'') (Some ''nqn.x'') 3 3)
        None (Some ''4'') (Some ''5'')
        (start [host ''h1'' (Some ''nvme_host_test'') (Some ''nqn.x'') 3 3]))) =
     [HostModifyMaxNumPaths ''h1'' ''4'', HostModifyMaxNumSysPorts ''h1'' ''5'']"
    by (simp add: perform_modify_def modify_name_def modify_paths_def modify_sys_ports_def
        op_defs mem_defs)
  have look: "get_nvme_host mem_conn (Some ''h1'') None None
       (start [host ''h1'' (Some ''nvme_host_test'') (Some ''nqn.x'') 3 3]) =
     (Inr (Some (host ''h1'' (Some ''nvme_host_test'') (Some ''nqn.x'') 3 3)),
      \<lparr>remote = [host ''h1'' (Some ''nvme_host_test'') (Some ''nqn.x'') 3 3],
       calls = [SdcGet (ById (Some ''h1''))]\<rparr>)"
    by (simp add: get_nvme_host_def nvme_filter_def op_defs mem_defs)
  note a = limit_applied_only_when_different [where i = "''h1''" and v = "''4''"
      and w = "start [host ''h1'' (Some ''nvme_host_test'') (Some ''nqn.x'') 3 3]" and conn = mem_conn
      and d = "host ''h1'' (Some ''nvme_host_test'') (Some ''nqn.x'') 3 3" and nn = None
      and mp = "Some ''4''" and msp = "Some ''5''"
      and q = "\<lparr>nvme_host_id = Some ''h1'', nvme_host_name = None, nvme_host_new_name = None,
      max_num_paths = Some ''3'', max_num_sys_ports = None, nqn = None, nvme_state = Present\<rparr>"
      and ?w1.0 = "\<lparr>remote = [host ''h1'' (Some ''nvme_host_test'') (Some ''nqn.x'') 3 3],
     calls = [SdcGet (ById (Some ''h1''))]\<rparr>"]
  note b = limit_applied_only_when_different [where i = "''h1''" and v = "''5''"
      and w = "start [host ''h1'' (Some ''nvme_host_test'') (Some ''nqn.x'') 3 3]" and conn = mem_conn
      and d = "host ''h1'' (Some ''nvme_host_test'') (Some ''nqn.x'') 3 3" and nn = None
      and mp = "Some ''4''" and msp = "Some ''5''"]
  from a b run look show ?thesis
    by (simp add: nvme_validate_parameters_def mem_defs)
qed

section \<open>Idempotence\<close>

text \<open>
  The NVMe-host module compares before it changes: an invocation with
  \<open>state = present\<close> whose lookup finds a record that already has the requested name
  (or no new name is requested) and whose limits, as strings, equal the requested ones
  (or none is requested) issues no mutating call and returns \<open>changed = False\<close> with
  the record found.
\<close>

lemma nvme_converged_noop:
  assumes va: "nvme_validate_parameters q = Inr ()" and st: "nvme_state q = Present"
    and g: "get_nvme_host conn (nvme_host_id q) (nvme_host_name q) (nqn q) w = (Inr (Some d), w1)"
    and nn: "nvme_host_new_name q = None \<or> nvme_host_new_name q = d_name d"
    and mp: "truthy_str (max_num_paths q) = None
               \<or> max_num_paths q = Some (py_str (d_maxNumPaths d))"
    and msp: "truthy_str (max_num_sys_ports q) = None
               \<or> max_num_sys_ports q = Some (py_str (d_maxNumSysPorts d))"
  shows "nvme_perform_module_operation conn q w =
           (Inr \<lparr>changed = False, resource_details = Some d\<rparr>, w1)
       \<and> remote w1 = remote w
       \<and> filter (Not \<circ> is_read) (calls w1) = filter (Not \<circ> is_read) (calls w)"
proof -
  have "perform_modify conn d (nvme_host_new_name q) (max_num_paths q) (max_num_sys_ports q) w1
           = (Inr False, w1)"
    using nn mp msp by (rule perform_modify_noop)
  from nvme_present_noop [OF va st g this] get_nvme_host_reads [OF g]
  show ?thesis by simp
qed

text \<open>
  C1. The claim asks that a second identical invocation returns \<open>changed = False\<close>,
  and in particular that a rename request whose new name already equals the current
  remote name issues no rename call. The SDC module calls \<open>rename_sdc\<close> whenever a
  new name is given, without comparing it with the current name: run twice on an SDC
  selected by its id, the second invocation (whose new name is then the current remote
  name) issues the rename call again and returns \<open>changed = True\<close>.
\<close>

theorem sdc_rename_not_idempotent:
  "sdc_perform_module_operation mem_conn
     \<lparr>sdc_name = None, sdc_id = Some ''abc'', sdc_ip = None,
      sdc_new_name = Some ''centos_sdc_renamed'', sdc_state = Present\<rparr>
     (start [sdc ''abc'' (Some ''centos_sdc'') None]) =
   (Inr \<lparr>changed = True,
         resource_details = Some ((sdc ''abc'' (Some ''centos_sdc_renamed'') None)
                                    \<lparr>d_mapped_volumes := Some []\<rparr>)\<rparr>,
    \<lparr>remote = [sdc ''abc'' (Some ''centos_sdc_renamed'') None],
     calls = [SdcGet (ById (Some ''abc'')), SdcGetMappedVolumes ''abc'',
              SdcRename ''abc'' ''centos_sdc_renamed'',
              SdcGet (ByName ''centos_sdc_renamed''), SdcGetMappedVolumes ''abc'']\<rparr>)
 \<and> sdc_perform_module_operation mem_conn
     \<lparr>sdc_name = None, sdc_id = Some ''abc'', sdc_ip = None,
      sdc_new_name = Some ''centos_sdc_renamed'', sdc_state = Present\<rparr>
     \<lparr>remote = [sdc ''abc'' (Some ''centos_sdc_renamed'') None],
      calls = [SdcGet (ById (Some ''abc'')), SdcGetMappedVolumes ''abc'',
               SdcRename ''abc'' ''centos_sdc_renamed'',
               SdcGet (ByName ''centos_sdc_renamed''), SdcGetMappedVolumes ''abc'']\<rparr> =
   (Inr \<lparr>changed = True,
         resource_details = Some ((sdc ''abc'' (Some ''centos_sdc_renamed'') None)
                                    \<lparr>d_mapped_volumes := Some []\<rparr>)\<rparr>,
    \<lparr>remote = [sdc ''abc'' (Some ''centos_sdc_renamed'') None],
     calls = [SdcGet (ById (Some ''abc'')), SdcGetMappedVolumes ''abc'',
              SdcRename ''abc'' ''centos_sdc_renamed'',
              SdcGet (ByName ''centos_sdc_renamed''), SdcGetMappedVolumes ''abc'',
              SdcGet (ById (Some ''abc'')), SdcGetMappedVolumes ''abc'',
              SdcRename ''abc'' ''centos_sdc_renamed'',
              SdcGet (ByName ''centos_sdc_renamed''), SdcGetMappedVolumes ''abc'']\<rparr>)"
  by (simp add: sdc_defs op_defs mem_defs)

text \<open>
  An invocation that selects an NVMe host by the name it renames away does not find the
  host on a second run: it goes to the creation path and fails there.
\<close>

lemma nvme_rename_by_name_twice:
  "fst (nvme_perform_module_operation mem_conn
     \<lparr>nvme_host_id = None, nvme_host_name = Some ''a'', nvme_host_new_name = Some ''b'',
      max_num_paths = None, max_num_sys_ports = None, nqn = None, nvme_state = Present\<rparr>
     (start [host ''h1'' (Some ''a'') (Some ''nqn.x'') 3 3])) =
     Inr \<lparr>changed = True, resource_details = Some (host ''h1'' (Some ''b'') (Some ''nqn.x'') 3 3)\<rparr>
 \<and> fst (nvme_perform_module_operation mem_conn
     \<lparr>nvme_host_id = None, nvme_host_name = Some ''a'', nvme_host_new_name = Some ''b'',
      max_num_paths = None, max_num_sys_ports = None, nqn = None, nvme_state = Present\<rparr>
     (snd (nvme_perform_module_operation mem_conn
       \<lparr>nvme_host_id = None, nvme_host_name = Some ''a'', nvme_host_new_name = Some ''b'',
        max_num_paths = None, max_num_sys_ports = None, nqn = None, nvme_state = Present\<rparr>
       (start [host ''h1'' (Some ''a'') (Some ''nqn.x'') 3 3])))) =
     Inl (FailJson ''nqn parameter is required for creating an NVMe host.'')"
  by (simp add: nvme_defs op_defs mem_defs)

section \<open>The final snapshot\<close>

text \<open>
  C9, as stated, fails: after renaming an SDC selected by its id, the SDC module fetches
  the snapshot by the new name, not by the id.
\<close>

theorem sdc_refetch_by_new_name_counterexample:
  "calls (snd (sdc_perform_module_operation mem_conn
     \<lparr>sdc_name = None, sdc_id = Some ''abc'', sdc_ip = None, sdc_new_name = Some ''centos_sdc_renamed'',
      sdc_state = Present\<rparr> (start [sdc ''abc'' (Some ''centos_sdc'') None]))) =
     [SdcGet (ById (Some ''abc'')), SdcGetMappedVolumes ''abc'',
      SdcRename ''abc'' ''centos_sdc_renamed'',
      SdcGet (ByName ''centos_sdc_renamed''), SdcGetMappedVolumes ''abc'']"
  by (simp add: sdc_defs op_defs mem_defs)

text \<open>
  C9, amended. A successful invocation that reports \<open>changed = True\<close> ends with a
  fetch from the remote system whose answer is the snapshot in the result, and no
  mutating call follows the state it reads. The SDC module fetches by the new name
  (after the lookup and the rename call): the snapshot is the first record of the
  answer of that query on the final remote state, with the answer of
  \<open>get_mapped_volumes\<close> for that record attached. The NVMe-host module fetches with
  the lookup order name, id, nqn, where the name is the new name when one is given and
  the original name otherwise: the snapshot is the first record of the answer of that
  query on the final remote state. Each kind is stated on its own.
\<close>

theorem snapshot_refetched:
  "(sdc_perform_module_operation conn p w = (Inr res, w') \<and> changed res \<longrightarrow>
      (\<exists>nn (d0::details) w2.
            sdc_new_name p = Some nn
          \<and> calls w2 = calls w @ [SdcGet (sdc_filter (sdc_name p) (sdc_ip p) (sdc_id p)),
                                  SdcGetMappedVolumes (d_id d0), SdcRename (d_id d0) nn]
          \<and> get_sdc conn (Some nn) (sdc_ip p) (sdc_id p) w2 = (Inr (resource_details res), w')
          \<and> sdc_filter (Some nn) (sdc_ip p) (sdc_id p) = ByName nn
          \<and> remote w2 = remote w'
          \<and> filter (Not \<circ> is_read) (calls w2) = filter (Not \<circ> is_read) (calls w')
          \<and> (case resource_details res of
                None \<Rightarrow> conn_sdc_get conn (remote w') (ByName nn) = Inr []
              | Some d \<Rightarrow> (\<exists>d1 ds vols.
                    conn_sdc_get conn (remote w') (ByName nn) = Inr (d1 # ds)
                  \<and> conn_sdc_get_mapped_volumes conn (remote w') (d_id d1) = Inr vols
                  \<and> d = d1\<lparr>d_mapped_volumes := Some vols\<rparr>))))
 \<and> (nvme_perform_module_operation conn' q v = (Inr res', v') \<and> changed res' \<longrightarrow>
      (\<exists>v2 idn f.
            get_nvme_host conn' (nvme_host_id q)
              (py_or (nvme_host_new_name q) (nvme_host_name q)) (nqn q) v2
              = (Inr (resource_details res'), v')
          \<and> remote v2 = remote v'
          \<and> filter (Not \<circ> is_read) (calls v2) = filter (Not \<circ> is_read) (calls v')
          \<and> nvme_filter (nvme_host_id q) (py_or (nvme_host_new_name q) (nvme_host_name q)) (nqn q)
              = Some (idn, f)
          \<and> (case resource_details res' of
                None \<Rightarrow> conn_sdc_get conn' (remote v') f = Inr []
              | Some d \<Rightarrow> (\<exists>ds. conn_sdc_get conn' (remote v') f = Inr (d # ds)))))"
proof (intro conjI impI)
  assume "sdc_perform_module_operation conn p w = (Inr res, w') \<and> changed res"
  then have rs: "sdc_perform_module_operation conn p w = (Inr res, w')" and cs: "changed res"
    by simp_all
  from sdc_changed_run [OF rs cs] obtain d0 nn wa r' where
    g: "get_sdc conn (sdc_name p) (sdc_ip p) (sdc_id p) w = (Inr (Some d0), wa)"
    and nn: "sdc_new_name p = Some nn" and nb: "strip nn \<noteq> []"
    and rr: "conn_sdc_rename conn (remote wa) (d_id d0) nn = Inr r'"
    and f: "get_sdc conn (Some nn) (sdc_ip p) (sdc_id p)
              ((record_call (SdcRename (d_id d0) nn) wa)\<lparr>remote := r'\<rparr>)
            = (Inr (resource_details res), w')"
    by blast
  define w2 where "w2 = (record_call (SdcRename (d_id d0) nn) wa)\<lparr>remote := r'\<rparr>"
  from get_sdc_found [OF g] have
    wa: "calls wa = calls w @ [SdcGet (sdc_filter (sdc_name p) (sdc_ip p) (sdc_id p)),
                               SdcGetMappedVolumes (d_id d0)]"
    by auto
  have c2: "calls w2 = calls w @ [SdcGet (sdc_filter (sdc_name p) (sdc_ip p) (sdc_id p)),
                                  SdcGetMappedVolumes (d_id d0), SdcRename (d_id d0) nn]"
    by (simp add: w2_def record_call_def wa)
  have f2: "get_sdc conn (Some nn) (sdc_ip p) (sdc_id p) w2 = (Inr (resource_details res), w')"
    using f by (simp add: w2_def)
  from nb have "nn \<noteq> []" using strip_Nil by blast
  then have byname: "sdc_filter (Some nn) (sdc_ip p) (sdc_id p) = ByName nn"
    by (simp add: sdc_filter_def)
  note rd = get_sdc_reads [OF f2]
  have mv: "case resource_details res of
                None \<Rightarrow> conn_sdc_get conn (remote w') (ByName nn) = Inr []
              | Some d \<Rightarrow> (\<exists>d1 ds vols.
                    conn_sdc_get conn (remote w') (ByName nn) = Inr (d1 # ds)
                  \<and> conn_sdc_get_mapped_volumes conn (remote w') (d_id d1) = Inr vols
                  \<and> d = d1\<lparr>d_mapped_volumes := Some vols\<rparr>)"
    using get_sdc_answer [OF f2] by (auto simp: byname rd(1) split: option.splits)
  show "\<exists>nn (d0::details) w2.
            sdc_new_name p = Some nn
          \<and> calls w2 = calls w @ [SdcGet (sdc_filter (sdc_name p) (sdc_ip p) (sdc_id p)),
                                  SdcGetMappedVolumes (d_id d0), SdcRename (d_id d0) nn]
          \<and> get_sdc conn (Some nn) (sdc_ip p) (sdc_id p) w2 = (Inr (resource_details res), w')
          \<and> sdc_filter (Some nn) (sdc_ip p) (sdc_id p) = ByName nn
          \<and> remote w2 = remote w'
          \<and> filter (Not \<circ> is_read) (calls w2) = filter (Not \<circ> is_read) (calls w')
          \<and> (case resource_details res of
                None \<Rightarrow> conn_sdc_get conn (remote w') (ByName nn) = Inr []
              | Some d \<Rightarrow> (\<exists>d1 ds vols.
                    conn_sdc_get conn (remote w') (ByName nn) = Inr (d1 # ds)
                  \<and> conn_sdc_get_mapped_volumes conn (remote w') (d_id d1) = Inr vols
                  \<and> d = d1\<lparr>d_mapped_volumes := Some vols\<rparr>))"
    apply (rule exI [of _ nn], rule exI [of _ d0], rule exI [of _ w2])
    using nn c2 f2 byname rd mv apply simp
    done
next
  assume "nvme_perform_module_operation conn' q v = (Inr res', v') \<and> changed res'"
  then have rn: "nvme_perform_module_operation conn' q v = (Inr res', v')" and cn: "changed res'"
    by simp_all
  from nvme_changed_run [OF rn cn] obtain v2 where
    h: "get_nvme_host conn' (nvme_host_id q)
          (py_or (nvme_host_new_name q) (nvme_host_name q)) (nqn q) v2
        = (Inr (resource_details res'), v')"
    by blast
  note rh = get_nvme_host_reads [OF h]
  from get_nvme_host_answer [OF h] obtain idn f where
    nf: "nvme_filter (nvme_host_id q) (py_or (nvme_host_new_name q) (nvme_host_name q)) (nqn q)
              = Some (idn, f)"
    and an: "case resource_details res' of
                None \<Rightarrow> conn_sdc_get conn' (remote v2) f = Inr []
              | Some d \<Rightarrow> (\<exists>ds. conn_sdc_get conn' (remote v2) f = Inr (d # ds))"
    by blast
  have an': "case resource_details res' of
                None \<Rightarrow> conn_sdc_get conn' (remote v') f = Inr []
              | Some d \<Rightarrow> (\<exists>ds. conn_sdc_get conn' (remote v') f = Inr (d # ds))"
    using an by (auto simp: rh(1) split: option.splits)
  show "\<exists>v2 idn f.
            get_nvme_host conn' (nvme_host_id q)
              (py_or (nvme_host_new_name q) (nvme_host_name q)) (nqn q) v2
              = (Inr (resource_details res'), v')
          \<and> remote v2 = remote v'
          \<and> filter (Not \<circ> is_read) (calls v2) = filter (Not \<circ> is_read) (calls v')
          \<and> nvme_filter (nvme_host_id q) (py_or (nvme_host_new_name q) (nvme_host_name q)) (nqn q)
              = Some (idn, f)
          \<and> (case resource_details res' of
                None \<Rightarrow> conn_sdc_get conn' (remote v') f = Inr []
              | Some d \<Rightarrow> (\<exists>ds. conn_sdc_get conn' (remote v') f = Inr (d # ds)))"
    apply (rule exI [of _ v2], rule exI [of _ idn], rule exI [of _ f])
    using h rh nf an' apply simp
    done
qed


theorem snapshot_refetched_witness:
  "(\<exists>nn (d0::details) w2.
      Some ''centos_sdc_renamed'' = Some nn
    \<and> calls w2 = [SdcGet (ById (Some ''abc'')), SdcGetMappedVolumes (d_id d0), SdcRename (d_id d0) nn]
    \<and> get_sdc mem_conn (Some nn) None (Some ''abc'') w2 =
        (Inr (Some ((sdc ''abc'' (Some ''centos_sdc_renamed'') None)
                      \<lparr>d_mapped_volumes := Some [Volume ''v1'' ''vol1'']\<rparr>)),
         \<lparr>remote = [(sdc ''abc'' (Some ''centos_sdc_renamed'') None)
                      \<lparr>d_mapped_volumes := Some [Volume ''v1'' ''vol1'']\<rparr>],
          calls = [SdcGet (ById (Some ''abc'')), SdcGetMappedVolumes ''abc'',
                   SdcRename ''abc'' ''centos_sdc_renamed'',
                   SdcGet (ByName ''centos_sdc_renamed''), SdcGetMappedVolumes ''abc'']\<rparr>)
    \<and> (\<exists>d1 ds vols.
          conn_sdc_get mem_conn
            [(sdc ''abc'' (Some ''centos_sdc_renamed'') None)
               \<lparr>d_mapped_volumes := Some [Volume ''v1'' ''vol1'']\<rparr>] (ByName nn) = Inr (d1 # ds)
        \<and> conn_sdc_get_mapped_volumes mem_conn
            [(sdc ''abc'' (Some ''centos_sdc_renamed'') None)
               \<lparr>d_mapped_volumes := Some [Volume ''v1'' ''vol1'']\<rparr>] (d_id d1) = Inr vols
        \<and> (sdc ''abc'' (Some ''centos_sdc_renamed'') None)
               \<lparr>d_mapped_volumes := Some [Volume ''v1'' ''vol1'']\<rparr>
            = d1\<lparr>d_mapped_volumes := Some vols\<rparr>))
 \<and> (\<exists>v2 idn f.
      get_nvme_host mem_conn None (Some ''new'') (Some ''nqn.y'') v2 =
        (Inr (Some (host ''host1'' (Some ''new'') (Some ''nqn.y'') 4 2)),
         \<lparr>remote = [host ''h1'' (Some ''a'') (Some ''nqn.x'') 3 3,
                    host ''host1'' (Some ''new'') (Some ''nqn.y'') 4 2],
          calls = [SdcGet (ByName ''new''), HostCreate ''nqn.y'' (Some ''new'') (Some ''4'') (Some ''2''),
                   SdcGet (ById (Some ''host1'')), SdcGet (ByName ''new'')]\<rparr>)
    \<and> nvme_filter None (Some ''new'') (Some ''nqn.y'') = Some (idn, f)
    \<and> (\<exists>ds. conn_sdc_get mem_conn
                [host ''h1'' (Some ''a'') (Some ''nqn.x'') 3 3,
                 host ''host1'' (Some ''new'') (Some ''nqn.y'') 4 2] f
              = Inr (host ''host1'' (Some ''new'') (Some ''nqn.y'') 4 2 # ds)))"
proof -
  have rs: "sdc_perform_module_operation mem_conn
     \<lparr>sdc_name = None, sdc_id = Some ''abc'', sdc_ip = None, sdc_new_name = Some ''centos_sdc_renamed'',
      sdc_state = Present\<rparr>
     (start [(sdc ''abc'' (Some ''centos_sdc'') None)
               \<lparr>d_mapped_volumes := Some [Volume ''v1'' ''vol1'']\<rparr>]) =
     (Inr \<lparr>changed = True, resource_details =
            Some ((sdc ''abc'' (Some ''centos_sdc_renamed'') None)
                    \<lparr>d_mapped_volumes := Some [Volume ''v1'' ''vol1'']\<rparr>)\<rparr>,
         \<lparr>remote = [(sdc ''abc'' (Some ''centos_sdc_renamed'') None)
                      \<lparr>d_mapped_volumes := Some [Volume ''v1'' ''vol1'']\<rparr>],
          calls = [SdcGet (ById (Some ''abc'')), SdcGetMappedVolumes ''abc'',
                   SdcRename ''abc'' ''centos_sdc_renamed'',
                   SdcGet (ByName ''centos_sdc_renamed''), SdcGetMappedVolumes ''abc'']\<rparr>)"
    by (simp add: sdc_defs op_defs mem_defs)
  have rn: "nvme_perform_module_operation mem_conn
     \<lparr>nvme_host_id = None, nvme_host_name = Some ''new'', nvme_host_new_name = None,
      max_num_paths = Some ''4'', max_num_sys_ports = Some ''2'', nqn = Some ''nqn.y'',
      nvme_state = Present\<rparr> (start [host ''h1'' (Some ''a'') (Some ''nqn.x'') 3 3]) =
     (Inr \<lparr>changed = True, resource_details =
            Some (host ''host1'' (Some ''new'') (Some ''nqn.y'') 4 2)\<rparr>,
         \<lparr>remote = [host ''h1'' (Some ''a'') (Some ''nqn.x'') 3 3,
                    host ''host1'' (Some ''new'') (Some ''nqn.y'') 4 2],
          calls = [SdcGet (ByName ''new''), HostCreate ''nqn.y'' (Some ''new'') (Some ''4'') (Some ''2''),
                   SdcGet (ById (Some ''host1'')), SdcGet (ByName ''new'')]\<rparr>)"
    by (simp add: nvme_defs op_defs mem_defs)
  note t = snapshot_refetched [where conn = mem_conn
      and p = "\<lparr>sdc_name = None, sdc_id = Some ''abc'', sdc_ip = None,
               sdc_new_name = Some ''centos_sdc_renamed'', sdc_state = Present\<rparr>"
      and w = "start [(sdc ''abc'' (Some ''centos_sdc'') None)
               \<lparr>d_mapped_volumes := Some [Volume ''v1'' ''vol1'']\<rparr>]"
      and res = "\<lparr>changed = True, resource_details =
            Some ((sdc ''abc'' (Some ''centos_sdc_renamed'') None)
                    \<lparr>d_mapped_volumes := Some [Volume ''v1'' ''vol1'']\<rparr>)\<rparr>"
      and w' = "\<lparr>remote = [(sdc ''abc'' (Some ''centos_sdc_renamed'') None)
                      \<lparr>d_mapped_volumes := Some [Volume ''v1'' ''vol1'']\<rparr>],
          calls = [SdcGet (ById (Some ''abc'')), SdcGetMappedVolumes ''abc'',
                   SdcRename ''abc'' ''centos_sdc_renamed'',
                   SdcGet (ByName ''centos_sdc_renamed''), SdcGetMappedVolumes ''abc'']\<rparr>"
      and conn' = mem_conn
      and q = "\<lparr>nvme_host_id = None, nvme_host_name = Some ''new'', nvme_host_new_name = None,
      max_num_paths = Some ''4'', max_num_sys_ports = Some ''2'', nqn = Some ''nqn.y'',
      nvme_state = Present\<rparr>"
      and v = "start [host ''h1'' (Some ''a'') (Some ''nqn.x'') 3 3]"
      and res' = "\<lparr>changed = True, resource_details =
            Some (host ''host1'' (Some ''new'') (Some ''nqn.y'') 4 2)\<rparr>"
      and v' = "\<lparr>remote = [host ''h1'' (Some ''a'') (Some ''nqn.x'') 3 3,
                    host ''host1'' (Some ''new'') (Some ''nqn.y'') 4 2],
          calls = [SdcGet (ByName ''new''), HostCreate ''nqn.y'' (Some ''new'') (Some ''4'') (Some ''2''),
                   SdcGet (ById (Some ''host1'')), SdcGet (ByName ''new'')]\<rparr>"]
  from t rs rn show ?thesis
    by (simp add: py_or_def sdc_filter_def start_def) blast
qed

text \<open>
  C10. An SDC invocation with \<open>state = present\<close> and no new name that passes validation
  and finds the SDC issues the lookup (get and get-mapped-volumes) twice and nothing
  else, leaves the remote state as it was, and returns \<open>changed = False\<close> with the
  details of the SDC, mapped volumes included.
\<close>

theorem sdc_present_read_only:
  assumes st: "sdc_state p = Present" and nn: "sdc_new_name p = None"
    and va: "sdc_validate_parameters p = Inr ()"
    and g: "get_sdc conn (sdc_name p) (sdc_ip p) (sdc_id p) w = (Inr (Some d), w1)"
  shows "sdc_perform_module_operation conn p w =
           (Inr \<lparr>changed = False, resource_details = Some d\<rparr>,
            w\<lparr>calls := calls w @
               [SdcGet (sdc_filter (sdc_name p) (sdc_ip p) (sdc_id p)), SdcGetMappedVolumes (d_id d),
                SdcGet (sdc_filter (sdc_name p) (sdc_ip p) (sdc_id p)), SdcGetMappedVolumes (d_id d)]\<rparr>)
       \<and> d_mapped_volumes d \<noteq> None"
proof -
  from get_sdc_found [OF g] obtain d0 ds vols where
    q: "conn_sdc_get conn (remote w) (sdc_filter (sdc_name p) (sdc_ip p) (sdc_id p)) = Inr (d0 # ds)"
    and v: "conn_sdc_get_mapped_volumes conn (remote w) (d_id d0) = Inr vols"
    and d: "d = d0\<lparr>d_mapped_volumes := Some vols\<rparr>"
    and w1: "w1 = w\<lparr>calls := calls w @ [SdcGet (sdc_filter (sdc_name p) (sdc_ip p) (sdc_id p)),
                 SdcGetMappedVolumes (d_id d0)]\<rparr>"
    by blast
  have again: "get_sdc conn (sdc_name p) (sdc_ip p) (sdc_id p) w1 =
      (Inr (Some d), w1\<lparr>calls := calls w1 @ [SdcGet (sdc_filter (sdc_name p) (sdc_ip p) (sdc_id p)),
                 SdcGetMappedVolumes (d_id d0)]\<rparr>)"
    using get_sdc_again [of conn w1 "sdc_name p" "sdc_ip p" "sdc_id p" d0 ds vols] q v
    by (simp add: w1 d)
  show ?thesis
    using st nn va g again
    by (simp add: sdc_perform_module_operation_def sdc_rename_block_def m_bind_def m_return_def
        m_when_def m_lift_def w1 d)
qed

theorem sdc_present_read_only_witness:
  "sdc_perform_module_operation mem_conn
     \<lparr>sdc_name = None, sdc_id = None, sdc_ip = Some ''10.0.0.1'', sdc_new_name = None,
      sdc_state = Present\<rparr>
     (start [(sdc ''abc'' (Some ''centos_sdc'') (Some ''10.0.0.1''))
               \<lparr>d_mapped_volumes := Some [Volume ''v1'' ''vol1'']\<rparr>]) =
   (Inr \<lparr>changed = False,
         resource_details = Some ((sdc ''abc'' (Some ''centos_sdc'') (Some ''10.0.0.1''))
               \<lparr>d_mapped_volumes := Some [Volume ''v1'' ''vol1'']\<rparr>)\<rparr>,
    \<lparr>remote = [(sdc ''abc'' (Some ''centos_sdc'') (Some ''10.0.0.1''))
               \<lparr>d_mapped_volumes := Some [Volume ''v1'' ''vol1'']\<rparr>],
     calls = [SdcGet (BySdcIp ''10.0.0.1''), SdcGetMappedVolumes ''abc'',
              SdcGet (BySdcIp ''10.0.0.1''), SdcGetMappedVolumes ''abc'']\<rparr>)"
  using sdc_present_read_only [of
     "\<lparr>sdc_name = None, sdc_id = None, sdc_ip = Some ''10.0.0.1'', sdc_new_name = None,
      sdc_state = Present\<rparr>" mem_conn
     "start [(sdc ''abc'' (Some ''centos_sdc'') (Some ''10.0.0.1''))
               \<lparr>d_mapped_volumes := Some [Volume ''v1'' ''vol1'']\<rparr>]"
     "(sdc ''abc'' (Some ''centos_sdc'') (Some ''10.0.0.1''))
               \<lparr>d_mapped_volumes := Some [Volume ''v1'' ''vol1'']\<rparr>"
     "\<lparr>remote = [(sdc ''abc'' (Some ''centos_sdc'') (Some ''10.0.0.1''))
               \<lparr>d_mapped_volumes := Some [Volume ''v1'' ''vol1'']\<rparr>],
     calls = [SdcGet (BySdcIp ''10.0.0.1''), SdcGetMappedVolumes ''abc'']\<rparr>"]
  by (simp add: sdc_validate_parameters_def get_sdc_def get_mapped_volumes_def sdc_filter_def
      op_defs mem_defs)

end
